theory Spec2Isabelle
  imports Complex_Main
begin

section \<open>JavaScript values, exceptions and tool results\<close>

text \<open>
  A JavaScript number, as far as the tools meet one: \<open>NaN\<close>; an integer that a double holds
  exactly (\<open>Num i\<close>, for \<open>i\<close> of magnitude at most \<open>2 ^ 53\<close>); or a number of larger magnitude
  (\<open>Beyond\<close>), which is rounded or infinite and whose value is not followed here, neither inside
  the page nor after it has left it.
\<close>

datatype js_num = NaN | Num int | Beyond

text \<open>Values of type \<open>any\<close>: what a tool puts into \<open>data\<close> and what an example carries as \<open>params\<close>.\<close>

datatype json =
    JNull
  | JBool bool
  | JNum js_num
  | JStr string
  | JArr "json list"
  | JObj "(string \<times> json) list"

text \<open>
  What a value that a callback of \<open>page.evaluate\<close> returns in the page arrives as: it is
  handed over in its JSON form, in which a \<open>NaN\<close> inside an array or an object is \<open>null\<close>; a
  number that is the whole value is handed over as it is. A field that is undefined is left
  out of an object already where the object is built. Of a number that is not followed
  (\<open>Beyond\<close>) what arrives is not followed either.
\<close>

fun through_json :: "json \<Rightarrow> json" where
  "through_json (JNum n) = (if n = NaN then JNull else JNum n)"
| "through_json (JArr xs) = JArr (map through_json xs)"
| "through_json (JObj kvs) = JObj (map (\<lambda>kv. (fst kv, through_json (snd kv))) kvs)"
| "through_json v = v"

definition returned_by_value :: "json \<Rightarrow> json" where
  "returned_by_value v = (case v of JNum n \<Rightarrow> JNum n | _ \<Rightarrow> through_json v)"

text \<open>
  What a \<open>throw\<close> or a rejected promise carries: a \<open>ZodError\<close> (the messages of its issues and
  its own \<open>message\<close>), any other \<open>Error\<close> with its \<open>message\<close>, or a value that is not an
  \<open>Error\<close> at all.
\<close>

datatype exn = ZodError "string list" string | Error string | NonError

text \<open>\<open>error instanceof Error ? error.message : dflt\<close>\<close>

fun message_or :: "string \<Rightarrow> exn \<Rightarrow> string" where
  "message_or dflt (ZodError issues m) = m"
| "message_or dflt (Error m) = m"
| "message_or dflt NonError = dflt"

text \<open>\<open>interface ToolResult\<close> of \<open>types/index.ts\<close>; an optional field is an \<open>option\<close>.\<close>

record ToolResult =
  success :: bool
  data :: "json option"
  error :: "string option"
  metadata :: "json option"

text \<open>The two object literals the tools return: \<open>{success: true, data}\<close> and \<open>{success: false, error}\<close>.\<close>

definition ok_result :: "json \<Rightarrow> ToolResult" where
  "ok_result d = \<lparr>success = True, data = Some d, error = None, metadata = None\<rparr>"

definition fail_result :: "string \<Rightarrow> ToolResult" where
  "fail_result m = \<lparr>success = False, data = None, error = Some m, metadata = None\<rparr>"

text \<open>The invariant of the result contract, as a predicate on one result.\<close>

definition contract :: "ToolResult \<Rightarrow> bool" where
  "contract r =
     (if success r then data r \<noteq> None \<and> error r = None
      else data r = None \<and> error r \<noteq> None \<and> error r \<noteq> Some [])"


section \<open>Strings\<close>

text \<open>
  A string is given by the bytes of its UTF-8 form, a \<open>char\<close> being a byte.

  \<open>String.prototype.toLowerCase\<close> on the ASCII letters; the bytes of a character outside
  ASCII are left as they are.
\<close>

definition toLowerCase_char :: "char \<Rightarrow> char" where
  "toLowerCase_char c =
     (case map_of (zip ''ABCDEFGHIJKLMNOPQRSTUVWXYZ'' ''abcdefghijklmnopqrstuvwxyz'') c of
        Some l \<Rightarrow> l
      | None \<Rightarrow> c)"

definition toLowerCase :: "string \<Rightarrow> string" where
  "toLowerCase s = map toLowerCase_char s"

text \<open>\<open>s.includes(k)\<close> on strings: \<open>k\<close> occurs in \<open>s\<close> as a contiguous piece.\<close>

fun starts_with :: "string \<Rightarrow> string \<Rightarrow> bool" where
  "starts_with s [] = True"
| "starts_with [] (k # ks) = False"
| "starts_with (c # cs) (k # ks) = (c = k \<and> starts_with cs ks)"

fun str_includes :: "string \<Rightarrow> string \<Rightarrow> bool" where
  "str_includes [] k = (k = [])"
| "str_includes (c # cs) k = (starts_with (c # cs) k \<or> str_includes cs k)"

text \<open>\<open>keywords.some(k => query.includes(k))\<close>\<close>

definition some_included :: "string list \<Rightarrow> string \<Rightarrow> bool" where
  "some_included keywords q = list_ex (\<lambda>k. str_includes q k) keywords"


text \<open>
  \<open>s.split(sep)\<close> for a separator of one character: the pieces between its occurrences,
  empty pieces kept, so the result is never the empty array.
\<close>

fun split_from :: "char \<Rightarrow> string \<Rightarrow> string \<Rightarrow> string list" where
  "split_from sep acc [] = [rev acc]"
| "split_from sep acc (c # cs) =
     (if c = sep then rev acc # split_from sep [] cs else split_from sep (c # acc) cs)"

definition split_char :: "char \<Rightarrow> string \<Rightarrow> string list" where
  "split_char sep s = split_from sep [] s"

text \<open>\<open>s.split(' ')\<close>\<close>

definition split_space :: "string \<Rightarrow> string list" where
  "split_space s = split_char (CHR '' '') s"

text \<open>\<open>xs.join(sep)\<close>\<close>

fun join :: "string \<Rightarrow> string list \<Rightarrow> string" where
  "join sep [] = []"
| "join sep [x] = x"
| "join sep (x # y # ys) = x @ sep @ join sep (y # ys)"

text \<open>The ASCII white space.\<close>

definition is_space :: "char \<Rightarrow> bool" where
  "is_space c = (c \<in> set [CHR '' '', CHR 0x09, CHR 0x0A, CHR 0x0B, CHR 0x0C, CHR 0x0D])"

text \<open>
  The characters of a string, each with all its bytes: a byte of the form \<open>10xxxxxx\<close>
  continues the character before it.
\<close>

fun is_continuation :: "char \<Rightarrow> bool" where
  "is_continuation (Char b0 b1 b2 b3 b4 b5 b6 b7) = (b7 \<and> \<not> b6)"

fun code_points_from :: "string \<Rightarrow> string \<Rightarrow> string list" where
  "code_points_from acc [] = (if acc = [] then [] else [rev acc])"
| "code_points_from acc (c # cs) =
     (if is_continuation c \<or> acc = [] then code_points_from (c # acc) cs
      else rev acc # code_points_from [c] cs)"

definition code_points :: "string \<Rightarrow> string list" where
  "code_points s = code_points_from [] s"

text \<open>
  The white space and the line terminators of JavaScript, which \<open>trim\<close> and \<open>parseInt\<close>
  skip: U+0009 to U+000D, U+0020, U+00A0, U+1680, U+2000 to U+200A, U+2028, U+2029, U+202F,
  U+205F, U+3000 and U+FEFF.
\<close>

definition white_space :: "string list" where
  "white_space =
     [ [CHR 0x09], [CHR 0x0A], [CHR 0x0B], [CHR 0x0C], [CHR 0x0D], [CHR 0x20],
       [CHR 0xC2, CHR 0xA0], [CHR 0xE1, CHR 0x9A, CHR 0x80],
       [CHR 0xE2, CHR 0x80, CHR 0x80], [CHR 0xE2, CHR 0x80, CHR 0x81],
       [CHR 0xE2, CHR 0x80, CHR 0x82], [CHR 0xE2, CHR 0x80, CHR 0x83],
       [CHR 0xE2, CHR 0x80, CHR 0x84], [CHR 0xE2, CHR 0x80, CHR 0x85],
       [CHR 0xE2, CHR 0x80, CHR 0x86], [CHR 0xE2, CHR 0x80, CHR 0x87],
       [CHR 0xE2, CHR 0x80, CHR 0x88], [CHR 0xE2, CHR 0x80, CHR 0x89],
       [CHR 0xE2, CHR 0x80, CHR 0x8A], [CHR 0xE2, CHR 0x80, CHR 0xA8],
       [CHR 0xE2, CHR 0x80, CHR 0xA9], [CHR 0xE2, CHR 0x80, CHR 0xAF],
       [CHR 0xE2, CHR 0x81, CHR 0x9F], [CHR 0xE3, CHR 0x80, CHR 0x80],
       [CHR 0xEF, CHR 0xBB, CHR 0xBF] ]"

definition is_white_space :: "string \<Rightarrow> bool" where
  "is_white_space cp = (cp \<in> set white_space)"

text \<open>\<open>s.trimStart()\<close> and \<open>s.trim()\<close>\<close>

definition trimStart :: "string \<Rightarrow> string" where
  "trimStart s = concat (dropWhile is_white_space (code_points s))"

definition trim :: "string \<Rightarrow> string" where
  "trim s =
     concat (rev (dropWhile is_white_space (rev (dropWhile is_white_space (code_points s)))))"

text \<open>
  \<open>parseInt(s)\<close> with no radix: leading white space is skipped, a sign is read, a prefix
  \<open>0x\<close> or \<open>0X\<close> selects radix 16, and the longest run of digits of the radix is the value;
  when that run is empty the result is \<open>NaN\<close>, and when the value is beyond what a double
  holds exactly the result is not followed.
\<close>

definition digit_value :: "char \<Rightarrow> nat option" where
  "digit_value c =
     map_of (zip ''0123456789abcdefABCDEF''
       [0, 1, 2, 3, 4, 5, 6, 7, 8, 9, 10, 11, 12, 13, 14, 15, 10, 11, 12, 13, 14, 15]) c"

definition is_digit :: "nat \<Rightarrow> char \<Rightarrow> bool" where
  "is_digit radix c = (case digit_value c of None \<Rightarrow> False | Some d \<Rightarrow> d < radix)"

definition digits_value :: "nat \<Rightarrow> string \<Rightarrow> int" where
  "digits_value radix ds =
     foldl (\<lambda>a c. a * int radix + (case digit_value c of None \<Rightarrow> 0 | Some d \<Rightarrow> int d)) 0 ds"

definition parse_unsigned :: "string \<Rightarrow> js_num" where
  "parse_unsigned s =
     (let radix = (if starts_with s ''0x'' \<or> starts_with s ''0X'' then 16 else 10);
          body = (if radix = 16 then drop 2 s else s);
          ds = takeWhile (is_digit radix) body
      in if ds = [] then NaN
         else if digits_value radix ds \<le> 9007199254740992 then Num (digits_value radix ds)
         else Beyond)"

definition negate :: "js_num \<Rightarrow> js_num" where
  "negate n = (case n of NaN \<Rightarrow> NaN | Num i \<Rightarrow> Num (- i) | Beyond \<Rightarrow> Beyond)"

definition parseInt :: "string \<Rightarrow> js_num" where
  "parseInt s =
     (case trimStart s of
        [] \<Rightarrow> NaN
      | c # cs \<Rightarrow>
          if c = CHR ''-'' then negate (parse_unsigned cs)
          else if c = CHR ''+'' then parse_unsigned cs
          else parse_unsigned (c # cs))"

text \<open>\<open>n.toString()\<close> for an integer \<open>n\<close>: its decimal digits, with a minus sign when negative.\<close>

definition digit_char :: "nat \<Rightarrow> char" where
  "digit_char d = (''0123456789'' ! (d mod 10))"

fun show_nat :: "nat \<Rightarrow> string" where
  "show_nat n = (if n < 10 then [digit_char n] else show_nat (n div 10) @ [digit_char n])"

definition show_int :: "int \<Rightarrow> string" where
  "show_int i = (if i < 0 then CHR ''-'' # show_nat (nat (- i)) else show_nat (nat i))"


section \<open>The natural-language tool\<close>

record Example =
  query :: string
  interpretation_text :: string
  tool :: string
  params :: json

definition mk_example :: "string \<Rightarrow> string \<Rightarrow> string \<Rightarrow> json \<Rightarrow> Example" where
  "mk_example q i t p = \<lparr>query = q, interpretation_text = i, tool = t, params = p\<rparr>"

text \<open>The corpus \<open>NaturalLanguageTool.examples\<close>, in its order.\<close>

definition examples :: "Example list" where
  "examples =
   [ mk_example ''I want to create a new formal verification project for my CPU design''
       ''Create formal verification project'' ''arcas_onlineeda_project''
       (JObj [(''action'', JStr ''create''), (''projectType'', JStr ''formal''),
              (''projectName'', JStr ''cpu_formal_verification'')]),
     mk_example ''Let's start a power analysis project for the GPU controller''
       ''Create power analysis project'' ''arcas_onlineeda_project''
       (JObj [(''action'', JStr ''create''), (''projectType'', JStr ''power''),
              (''projectName'', JStr ''gpu_controller_power'')]),
     mk_example ''Set up equivalence checking between RTL and gate-level netlist''
       ''Create equivalence checking project'' ''arcas_onlineeda_project''
       (JObj [(''action'', JStr ''create''), (''projectType'', JStr ''equivalence''),
              (''projectName'', JStr ''rtl_gate_equivalence'')]),
     mk_example ''Check if my RISC-V core meets all safety properties''
       ''Run formal verification with safety properties'' ''arcas_onlineeda_run_verification''
       (JObj [(''verificationType'', JStr ''formal''),
              (''options'', JObj [(''properties'', JArr [JStr ''safety'']),
                                  (''depth'', JNum (Num 20))])]),
     mk_example ''Verify that the optimized design is functionally equivalent to the original''
       ''Run equivalence verification'' ''arcas_onlineeda_run_verification''
       (JObj [(''verificationType'', JStr ''equivalence'')]),
     mk_example ''Analyze power consumption during different operating modes''
       ''Run power analysis verification'' ''arcas_onlineeda_run_verification''
       (JObj [(''verificationType'', JStr ''power''),
              (''options'', JObj [(''timeout'', JNum (Num 600))])]),
     mk_example ''Find security vulnerabilities in my crypto module''
       ''Run security verification'' ''arcas_onlineeda_run_verification''
       (JObj [(''verificationType'', JStr ''security''),
              (''options'', JObj [(''properties'',
                 JArr [JStr ''information_leakage'', JStr ''timing_attacks''])])]),
     mk_example ''Upload my Verilog files for the memory controller''
       ''Upload Verilog design files'' ''arcas_onlineeda_upload_file''
       (JObj [(''fileType'', JStr ''verilog'')]),
     mk_example ''Add the SystemVerilog testbench to the project''
       ''Upload SystemVerilog testbench'' ''arcas_onlineeda_upload_file''
       (JObj [(''fileType'', JStr ''systemverilog'')]),
     mk_example ''Import SDC timing constraints''
       ''Upload constraint files'' ''arcas_onlineeda_upload_file''
       (JObj [(''fileType'', JStr ''constraints'')]),
     mk_example ''Show me all my verification projects''
       ''Navigate to projects list'' ''arcas_onlineeda_navigate''
       (JObj [(''action'', JStr ''projects'')]),
     mk_example ''Go to the documentation''
       ''Navigate to documentation'' ''arcas_onlineeda_navigate''
       (JObj [(''action'', JStr ''documentation'')]),
     mk_example ''I need to verify my AES encryption module meets FIPS standards''
       ''Security verification workflow for cryptographic module'' ''workflow''
       (JObj [(''steps'', JArr
          [ JObj [(''tool'', JStr ''arcas_onlineeda_project''),
                  (''params'', JObj [(''action'', JStr ''create''),
                     (''projectType'', JStr ''security''),
                     (''projectName'', JStr ''aes_fips_verification'')])],
            JObj [(''tool'', JStr ''arcas_onlineeda_upload_file''),
                  (''params'', JObj [(''fileType'', JStr ''verilog'')])],
            JObj [(''tool'', JStr ''arcas_onlineeda_run_verification''),
                  (''params'', JObj [(''verificationType'', JStr ''security''),
                     (''options'', JObj [(''properties'',
                        JArr [JStr ''fips_compliance''])])])] ])]),
     mk_example ''Compare power consumption before and after optimization''
       ''Power comparison workflow'' ''workflow''
       (JObj [(''steps'', JArr
          [ JObj [(''tool'', JStr ''arcas_onlineeda_project''),
                  (''params'', JObj [(''action'', JStr ''create''),
                     (''projectType'', JStr ''power''),
                     (''projectName'', JStr ''optimization_comparison'')])],
            JObj [(''tool'', JStr ''arcas_onlineeda_upload_file''),
                  (''params'', JObj [(''fileType'', JStr ''verilog''),
                     (''note'', JStr ''Upload both versions'')])],
            JObj [(''tool'', JStr ''arcas_onlineeda_run_verification''),
                  (''params'', JObj [(''verificationType'', JStr ''power'')])] ])]) ]"

text \<open>
  The body of the loop of \<open>findBestExample\<close>: the query's words (an array, repeated words
  counted each time) that occur among the example's words, over the longer of the two arrays.
  Both arrays have at least one element, so the division is defined. The quotient is an exact
  rational here.
\<close>

definition score :: "string list \<Rightarrow> Example \<Rightarrow> rat" where
  "score words example =
     (let exampleWords = split_space (toLowerCase (query example));
          commonWords = length (filter (\<lambda>word. word \<in> set exampleWords) words)
      in of_nat commonWords / of_nat (max (length words) (length exampleWords)))"

fun findBest_loop ::
  "string list \<Rightarrow> Example list \<Rightarrow> Example option \<times> rat \<Rightarrow> Example option \<times> rat" where
  "findBest_loop words [] best = best"
| "findBest_loop words (example # rest) (bestMatch, bestScore) =
     (if score words example > bestScore \<and> score words example > 1 / 2
      then findBest_loop words rest (Some example, score words example)
      else findBest_loop words rest (bestMatch, bestScore))"

definition findBestExample :: "Example list \<Rightarrow> string \<Rightarrow> Example option" where
  "findBestExample exs q = fst (findBest_loop (split_space q) exs (None, 0))"

definition isProjectCreation :: "string \<Rightarrow> bool" where
  "isProjectCreation q =
     (some_included [''create'', ''new'', ''start'', ''setup'', ''initialize'', ''begin''] q
      \<and> some_included [''project'', ''verification'', ''analysis''] q)"

definition isVerification :: "string \<Rightarrow> bool" where
  "isVerification q =
     (some_included [''verify'', ''check'', ''analyze'', ''test'', ''validate'', ''run'', ''execute''] q
      \<or> some_included [''formal'', ''equivalence'', ''power'', ''security'', ''fpga''] q)"

definition isFileOperation :: "string \<Rightarrow> bool" where
  "isFileOperation q =
     some_included [''upload'', ''add'', ''import'', ''load'', ''file'', ''design''] q"

definition isNavigation :: "string \<Rightarrow> bool" where
  "isNavigation q =
     (some_included [''go'', ''navigate'', ''show'', ''view'', ''open'', ''list''] q
      \<or> some_included [''home'', ''projects'', ''documentation'', ''settings''] q)"

definition isResultsQuery :: "string \<Rightarrow> bool" where
  "isResultsQuery q = some_included [''result'', ''report'', ''output'', ''findings'', ''status''] q"

definition isHelpQuery :: "string \<Rightarrow> bool" where
  "isHelpQuery q = some_included [''help'', ''how'', ''what'', ''explain'', ''guide'', ''tutorial''] q"

text \<open>
  The loop over \<open>Object.entries(table)\<close> that the four \<open>suggest\<close> functions share: the first
  entry, in insertion order, one of whose keywords the query includes; the default otherwise.
\<close>

fun detect :: "(string \<times> string list) list \<Rightarrow> string \<Rightarrow> string \<Rightarrow> string" where
  "detect [] q detected = detected"
| "detect ((type, keywords) # rest) q detected =
     (if some_included keywords q then type else detect rest q detected)"

definition example_json :: "Example \<Rightarrow> json" where
  "example_json e =
     JObj [(''query'', JStr (query e)), (''interpretation'', JStr (interpretation_text e)),
           (''tool'', JStr (tool e)), (''params'', params e)]"

text \<open>\<open>e.params.action === 'create'\<close>\<close>

definition params_action_is :: "string \<Rightarrow> Example \<Rightarrow> bool" where
  "params_action_is a e =
     (case params e of JObj kvs \<Rightarrow> map_of kvs ''action'' = Some (JStr a) | _ \<Rightarrow> False)"

definition projectTypes :: "(string \<times> string list) list" where
  "projectTypes =
   [ (''formal'', [''formal'', ''property'', ''assertion'', ''correctness'', ''safety'']),
     (''equivalence'', [''equivalence'', ''equivalent'', ''compare'', ''match'', ''same'']),
     (''power'', [''power'', ''energy'', ''consumption'', ''optimization'', ''low-power'']),
     (''security'', [''security'', ''secure'', ''vulnerability'', ''crypto'', ''attack'']),
     (''fpga'', [''fpga'', ''synthesis'', ''implementation'', ''xilinx'', ''altera'']) ]"

definition suggestProjectCreation :: "Example list \<Rightarrow> string \<Rightarrow> ToolResult" where
  "suggestProjectCreation exs q =
     ok_result (JObj
       [ (''interpretation'', JStr ''Create a new project''),
         (''suggestedTool'', JStr ''arcas_onlineeda_project''),
         (''suggestedParams'', JObj
            [ (''action'', JStr ''create''),
              (''projectType'', JStr (detect projectTypes q ''formal'')),
              (''projectName'', JStr ''Suggested: Extract from your requirements'') ]),
         (''examples'', JArr (map example_json
            (filter (\<lambda>e. tool e = ''arcas_onlineeda_project'' \<and> params_action_is ''create'' e) exs))),
         (''nextSteps'', JArr
            [ JStr ''After creating project, upload design files'',
              JStr ''Configure verification settings'',
              JStr ''Run verification'' ]) ])"

definition verificationTypes :: "(string \<times> string list) list" where
  "verificationTypes =
   [ (''formal'', [''formal'', ''property'', ''assertion'', ''prove'', ''theorem'']),
     (''equivalence'', [''equivalence'', ''equivalent'', ''compare'', ''netlist'', ''rtl'']),
     (''power'', [''power'', ''energy'', ''consumption'', ''watts'', ''dynamic'']),
     (''security'', [''security'', ''secure'', ''vulnerability'', ''attack'', ''leak'']),
     (''fpga'', [''fpga'', ''synthesis'', ''implementation'', ''timing'', ''resource'']) ]"

definition suggestVerification :: "Example list \<Rightarrow> string \<Rightarrow> ToolResult" where
  "suggestVerification exs q =
     ok_result (JObj
       [ (''interpretation'', JStr ''Run verification''),
         (''suggestedTool'', JStr ''arcas_onlineeda_run_verification''),
         (''suggestedParams'', JObj
            [ (''verificationType'', JStr (detect verificationTypes q ''formal'')),
              (''projectId'', JStr ''Required: Use current project ID'') ]),
         (''examples'', JArr (map example_json
            (filter (\<lambda>e. tool e = ''arcas_onlineeda_run_verification'') exs))),
         (''tips'', JArr
            [ JStr ''Ensure all design files are uploaded'',
              JStr ''Check project status before running verification'',
              JStr ''Review verification options for specific requirements'' ]) ])"

definition fileTypes :: "(string \<times> string list) list" where
  "fileTypes =
   [ (''verilog'', [''verilog'', ''.v'', ''rtl'']),
     (''systemverilog'', [''systemverilog'', ''.sv'', ''testbench'']),
     (''vhdl'', [''vhdl'', ''.vhd'']),
     (''constraints'', [''constraint'', ''sdc'', ''xdc'', ''timing'']) ]"

definition suggestFileUpload :: "Example list \<Rightarrow> string \<Rightarrow> ToolResult" where
  "suggestFileUpload exs q =
     ok_result (JObj
       [ (''interpretation'', JStr ''Upload design files''),
         (''suggestedTool'', JStr ''arcas_onlineeda_upload_file''),
         (''suggestedParams'', JObj
            [ (''projectId'', JStr ''Required: Use current project ID''),
              (''filePath'', JStr ''Required: Path to your design file''),
              (''fileType'', JStr (detect fileTypes q ''verilog'')) ]),
         (''examples'', JArr (map example_json
            (filter (\<lambda>e. tool e = ''arcas_onlineeda_upload_file'') exs))),
         (''supportedFormats'', JArr
            [ JStr ''Verilog (.v)'',
              JStr ''SystemVerilog (.sv)'',
              JStr ''VHDL (.vhd, .vhdl)'',
              JStr ''Constraint files (.sdc, .xdc)'' ]) ])"

definition navigationMap :: "(string \<times> string list) list" where
  "navigationMap =
   [ (''home'', [''home'', ''dashboard'', ''main'']),
     (''projects'', [''projects'', ''list'', ''all'']),
     (''new-project'', [''new'', ''create'']),
     (''documentation'', [''docs'', ''documentation'', ''help'', ''guide'']),
     (''settings'', [''settings'', ''config'', ''preferences'']) ]"

definition suggestNavigation :: "string \<Rightarrow> ToolResult" where
  "suggestNavigation q =
     ok_result (JObj
       [ (''interpretation'', JStr ''Navigate to platform section''),
         (''suggestedTool'', JStr ''arcas_onlineeda_navigate''),
         (''suggestedParams'', JObj [(''action'', JStr (detect navigationMap q ''home''))]),
         (''availableActions'', JArr (map (\<lambda>kv. JStr (fst kv)) navigationMap)) ])"

text \<open>\<open>projectId ? a : b\<close>: an absent and an empty project identifier are both falsy.\<close>

definition suggestGetResults :: "string option \<Rightarrow> ToolResult" where
  "suggestGetResults projectId =
     ok_result (JObj
       [ (''interpretation'', JStr ''Get verification results''),
         (''suggestedAction'', JStr
            (case projectId of
               None \<Rightarrow> ''First select a project, then navigate to its results''
             | Some p \<Rightarrow>
                 if p = [] then ''First select a project, then navigate to its results''
                 else ''Navigate to project '' @ p @ '' results page'')),
         (''suggestedTool'', JStr ''arcas_onlineeda_navigate''),
         (''note'', JStr ''Results are typically shown after running verification''),
         (''tip'', JStr ''You can also use the arcas://verification-results resource'') ])"

definition provideEnhancedHelp :: "Example list \<Rightarrow> ToolResult" where
  "provideEnhancedHelp exs =
     ok_result (JObj
       [ (''interpretation'', JStr ''Help requested''),
         (''overview'', JStr ''Arcas OnlineEDA is a comprehensive web-based EDA platform''),
         (''availableTools'', JArr
            [ JObj [ (''name'', JStr ''arcas_onlineeda_navigate''),
                     (''description'', JStr ''Navigate platform sections''),
                     (''actions'', JArr [JStr ''home'', JStr ''projects'', JStr ''new-project'',
                                         JStr ''documentation'', JStr ''settings'']) ],
              JObj [ (''name'', JStr ''arcas_onlineeda_project''),
                     (''description'', JStr ''Manage projects''),
                     (''actions'', JArr [JStr ''create'', JStr ''open'', JStr ''list'',
                                         JStr ''delete'']) ],
              JObj [ (''name'', JStr ''arcas_onlineeda_upload_file''),
                     (''description'', JStr ''Upload design files to projects'') ],
              JObj [ (''name'', JStr ''arcas_onlineeda_run_verification''),
                     (''description'', JStr ''Run verification on projects''),
                     (''types'', JArr [JStr ''formal'', JStr ''equivalence'', JStr ''power'',
                                       JStr ''security'', JStr ''fpga'']) ] ]),
         (''exampleQueries'', JArr (map (\<lambda>e. JStr (query e)) (take 5 exs))),
         (''workflow'', JArr
            [ JStr ''1. Create or open a project'',
              JStr ''2. Upload design files'',
              JStr ''3. Configure verification settings'',
              JStr ''4. Run verification'',
              JStr ''5. Review results'' ]),
         (''resources'', JArr
            [ JStr ''arcas://projects - List all projects'',
              JStr ''arcas://verification-results - Latest results'',
              JStr ''arcas://platform-status - Platform status'',
              JStr ''arcas://documentation - Full documentation'' ]) ])"

definition provideFallbackWithExamples :: "Example list \<Rightarrow> string \<Rightarrow> ToolResult" where
  "provideFallbackWithExamples exs q =
     ok_result (JObj
       [ (''interpretation'', JStr ''Query understood but needs clarification''),
         (''originalQuery'', JStr q),
         (''suggestions'', JArr
            [ JStr ''Try rephrasing your query'',
              JStr ''Use specific keywords like: create, verify, upload, navigate'',
              JStr ''Mention the verification type: formal, equivalence, power, security, fpga'' ]),
         (''exampleQueries'', JArr
            (map (\<lambda>e. JObj [(''query'', JStr (query e)), (''action'', JStr (interpretation_text e))])
               (take 10 exs))),
         (''availableTools'', JArr
            [ JStr ''arcas_onlineeda_project - Project management'',
              JStr ''arcas_onlineeda_upload_file - File uploads'',
              JStr ''arcas_onlineeda_run_verification - Run verifications'',
              JStr ''arcas_onlineeda_navigate - Platform navigation'' ]) ])"

record NaturalLanguageContext =
  currentProject :: "string option"
  previousResults :: "json option"

record NaturalLanguageParams =
  nl_query :: string
  nl_context :: "NaturalLanguageContext option"

text \<open>
  The statements inside the \<open>try\<close> of \<open>NaturalLanguageTool.execute\<close>; \<open>q\<close> is the query in lower
  case. Nothing in them throws, so the \<open>catch\<close> of the source is never entered.
\<close>

definition resolve_intent :: "Example list \<Rightarrow> NaturalLanguageParams \<Rightarrow> ToolResult" where
  "resolve_intent exs p =
     (let q = toLowerCase (nl_query p) in
      case findBestExample exs q of
        Some exactMatch \<Rightarrow>
          ok_result (JObj
            [ (''interpretation'', JStr (interpretation_text exactMatch)),
              (''suggestedTool'', JStr (tool exactMatch)),
              (''suggestedParams'', params exactMatch),
              (''matchedExample'', JStr (query exactMatch)),
              (''confidence'', JStr ''high'') ])
      | None \<Rightarrow>
          if isProjectCreation q then suggestProjectCreation exs q
          else if isVerification q then suggestVerification exs q
          else if isFileOperation q then suggestFileUpload exs q
          else if isNavigation q then suggestNavigation q
          else if isResultsQuery q then
            suggestGetResults (case nl_context p of None \<Rightarrow> None | Some c \<Rightarrow> currentProject c)
          else if isHelpQuery q then provideEnhancedHelp exs
          else provideFallbackWithExamples exs (nl_query p))"


section \<open>The page a callback of \<open>page.evaluate\<close> runs on\<close>

text \<open>
  A document as the callbacks see it: text nodes and elements; an element has its class names,
  its other attributes and its children. Every selector the callbacks use is a list of class
  selectors (\<open>.a, .b\<close>), written here as the list of the class names.
\<close>

datatype node = Text string | Element "string list" "(string \<times> string) list" "node list"

fun textContent :: "node \<Rightarrow> string" where
  "textContent (Text s) = s"
| "textContent (Element cs as ns) = concat (map textContent ns)"

fun descendants :: "node \<Rightarrow> node list" where
  "descendants (Text s) = []"
| "descendants (Element cs as ns) = concat (map (\<lambda>n. n # descendants n) ns)"

fun matches :: "string list \<Rightarrow> node \<Rightarrow> bool" where
  "matches sel (Text s) = False"
| "matches sel (Element cs as ns) = list_ex (\<lambda>c. c \<in> set sel) cs"

definition querySelectorAll :: "string list \<Rightarrow> node \<Rightarrow> node list" where
  "querySelectorAll sel scope = filter (matches sel) (descendants scope)"

definition querySelector :: "string list \<Rightarrow> node \<Rightarrow> node option" where
  "querySelector sel scope = (case querySelectorAll sel scope of [] \<Rightarrow> None | n # ns \<Rightarrow> Some n)"

fun getAttribute :: "string \<Rightarrow> node \<Rightarrow> string option" where
  "getAttribute a (Text s) = None"
| "getAttribute a (Element cs as ns) = map_of as a"

text \<open>\<open>el.querySelector(sel)?.textContent?.trim()\<close>: \<open>undefined\<close> when no element matches.\<close>

definition trimmed_text :: "string list \<Rightarrow> node \<Rightarrow> string option" where
  "trimmed_text sel el = map_option (\<lambda>n. trim (textContent n)) (querySelector sel el)"

text \<open>\<open>x || dflt\<close> for an optional string: \<open>undefined\<close> and the empty string are falsy.\<close>

definition or_default :: "string option \<Rightarrow> string \<Rightarrow> string" where
  "or_default x dflt = (case x of None \<Rightarrow> dflt | Some s \<Rightarrow> if s = [] then dflt else s)"

text \<open>\<open>document.querySelector(sel)?.textContent\<close>, untrimmed.\<close>

definition marker_text :: "string list \<Rightarrow> node \<Rightarrow> string option" where
  "marker_text sel doc = map_option textContent (querySelector sel doc)"

record Violation =
  violation_type :: string
  violation_message :: string
  violation_location :: "string option"
  violation_severity :: string

text \<open>
  The statistics object; its fields \<open>totalChecks\<close>, \<open>passed\<close>, \<open>failed\<close> and \<open>warnings\<close> are
  named here after the markers they are read from.
\<close>

record Statistics =
  totalChecks :: js_num
  checksPassed :: js_num
  checksFailed :: js_num
  warningsCount :: js_num

record VerificationResult =
  passed :: bool
  violations :: "Violation list"
  statistics :: Statistics

text \<open>
  The callback that \<open>extractVerificationResults\<close> hands to \<open>page.evaluate\<close>: first what it
  computes, as a record, then the object it returns.
\<close>

definition extract_violation :: "node \<Rightarrow> Violation" where
  "extract_violation el =
     \<lparr> violation_type = or_default (trimmed_text [''violation-type''] el) ''unknown'',
       violation_message = or_default (trimmed_text [''violation-message''] el) [],
       violation_location = trimmed_text [''violation-location''] el,
       violation_severity = or_default (trimmed_text [''violation-severity''] el) ''error'' \<rparr>"

definition extract_stat :: "string \<Rightarrow> node \<Rightarrow> js_num" where
  "extract_stat marker doc = parseInt (or_default (marker_text [marker] doc) ''0'')"

definition extract_results :: "node \<Rightarrow> VerificationResult" where
  "extract_results doc =
     \<lparr> passed = (querySelector [''verification-passed'', ''status-passed''] doc \<noteq> None),
       violations = map extract_violation (querySelectorAll [''violation-item'', ''error-item''] doc),
       statistics =
         \<lparr> totalChecks = extract_stat ''total-checks'' doc,
           checksPassed = extract_stat ''checks-passed'' doc,
           checksFailed = extract_stat ''checks-failed'' doc,
           warningsCount = extract_stat ''warnings-count'' doc \<rparr> \<rparr>"

text \<open>The object that the callback returns; a field that is undefined is left out of it.\<close>

definition optional_field :: "string \<Rightarrow> string option \<Rightarrow> (string \<times> json) list" where
  "optional_field k v = (case v of None \<Rightarrow> [] | Some s \<Rightarrow> [(k, JStr s)])"

definition violation_json :: "Violation \<Rightarrow> json" where
  "violation_json v =
     JObj ([(''type'', JStr (violation_type v)), (''message'', JStr (violation_message v))]
           @ optional_field ''location'' (violation_location v)
           @ [(''severity'', JStr (violation_severity v))])"

definition results_json :: "VerificationResult \<Rightarrow> json" where
  "results_json r =
     JObj [ (''passed'', JBool (passed r)),
            (''violations'', JArr (map violation_json (violations r))),
            (''statistics'', JObj
               [ (''totalChecks'', JNum (totalChecks (statistics r))),
                 (''passed'', JNum (checksPassed (statistics r))),
                 (''failed'', JNum (checksFailed (statistics r))),
                 (''warnings'', JNum (warningsCount (statistics r))) ]) ]"

text \<open>The callback of \<open>ProjectTool.listProjects\<close>.\<close>

definition project_json :: "node \<Rightarrow> json" where
  "project_json el =
     JObj ([(''id'', JStr (or_default (getAttribute ''data-project-id'' el)
                             (or_default (getAttribute ''id'' el) [])))]
           @ optional_field ''name'' (trimmed_text [''project-name''] el)
           @ optional_field ''type'' (trimmed_text [''project-type''] el)
           @ optional_field ''status'' (trimmed_text [''project-status''] el))"

definition list_projects_callback :: "node \<Rightarrow> json" where
  "list_projects_callback doc =
     JArr (map project_json (querySelectorAll [''project-item'', ''project-card''] doc))"

text \<open>
  The field \<open>count: projects.length\<close>. What has arrived is an array, as it was one in the
  page; of anything else the length would be undefined and the field left out.
\<close>

definition count_field :: "json \<Rightarrow> (string \<times> json) list" where
  "count_field projects =
     (case projects of
        JArr xs \<Rightarrow> [(''count'', JNum (Num (int (length xs))))]
      | _ \<Rightarrow> [])"


section \<open>The session, the calls that leave the program, and their outcomes\<close>

text \<open>\<open>interface SessionState\<close>; a handle is present or not.\<close>

record SessionState =
  browser :: "unit option"
  page :: "unit option"
  isLoggedIn :: bool
  currentProject :: "string option"

text \<open>
  The calls on the page, on an element handle and on the file system that the tools make, with
  the arguments that matter: \<open>page.goto(url)\<close>, \<open>page.$(selector)\<close>,
  \<open>page.waitForSelector(selector, {timeout})\<close> (the time in milliseconds, when one is given),
  \<open>page.waitForNavigation\<close>, \<open>page.waitForTimeout(ms)\<close>, \<open>page.type(selector, text)\<close>,
  \<open>page.click(selector)\<close>, \<open>page.select(selector, value)\<close>, \<open>fileInput.uploadFile(path)\<close>,
  \<open>page.evaluate(callback)\<close> and \<open>fs.access(path)\<close>.
\<close>

datatype call =
    Goto string
  | Query string
  | WaitForSelector string "int option"
  | WaitForNavigation
  | WaitForTimeout int
  | TypeText string string
  | Click string
  | Select string string
  | UploadFile string
  | Evaluate
  | FsAccess string

text \<open>The state a tool runs in: the session of the browser manager and the calls made so far.\<close>

record world =
  session :: SessionState
  trace :: "call list"

text \<open>
  What lies outside the program: whether a call is rejected, and with what, given the calls made
  before it; what a resolved \<open>page.$\<close> finds, what \<open>page.url()\<close> returns and the document a
  callback of \<open>page.evaluate\<close> sees, each at that moment; the two environment variables; and
  \<open>path.resolve\<close>.
\<close>

record runtime =
  rejects :: "call list \<Rightarrow> call \<Rightarrow> exn option"
  element_found :: "call list \<Rightarrow> string \<Rightarrow> bool"
  page_url :: "call list \<Rightarrow> string"
  page_document :: "call list \<Rightarrow> node"
  env_username :: "string option"
  env_password :: "string option"
  path_resolve :: "string \<Rightarrow> string"

text \<open>
  An asynchronous computation, run to its end: from the state, either the value it throws
  (\<open>Inl\<close>) or the value it returns (\<open>Inr\<close>), and the state after it.
\<close>

type_synonym 'a io = "world \<Rightarrow> (exn + 'a) \<times> world"

definition io_return :: "'a \<Rightarrow> 'a io" where
  "io_return x = (\<lambda>w. (Inr x, w))"

definition io_throw :: "exn \<Rightarrow> 'a io" where
  "io_throw e = (\<lambda>w. (Inl e, w))"

text \<open>One statement after another: the second runs only when the first did not throw.\<close>

definition io_bind :: "'a io \<Rightarrow> ('a \<Rightarrow> 'b io) \<Rightarrow> 'b io" where
  "io_bind m f = (\<lambda>w. case m w of (Inl e, w') \<Rightarrow> (Inl e, w') | (Inr x, w') \<Rightarrow> f x w')"

text \<open>\<open>try { m } catch (error) { h error }\<close>\<close>

definition try_catch :: "'a io \<Rightarrow> (exn \<Rightarrow> 'a io) \<Rightarrow> 'a io" where
  "try_catch m h = (\<lambda>w. case m w of (Inl e, w') \<Rightarrow> h e w' | (Inr x, w') \<Rightarrow> (Inr x, w'))"

text \<open>
  \<open>await Promise.all([a, b])\<close>: both calls are made, and the whole is rejected when one of
  them is; when both are, the rejection of the first is the one reported here.
\<close>

definition promise_all2 :: "unit io \<Rightarrow> unit io \<Rightarrow> unit io" where
  "promise_all2 a b =
     (\<lambda>w. case a w of (ra, w1) \<Rightarrow>
             (case b w1 of (rb, w2) \<Rightarrow>
                (case ra of Inl e \<Rightarrow> (Inl e, w2) | Inr x \<Rightarrow> (rb, w2))))"

text \<open>Making a call: it is recorded, and it is rejected or resolved as the outside decides.\<close>

definition perform :: "runtime \<Rightarrow> call \<Rightarrow> unit io" where
  "perform rt c =
     (\<lambda>w. (case rejects rt (trace w) c of Some e \<Rightarrow> Inl e | None \<Rightarrow> Inr (),
            w\<lparr>trace := trace w @ [c]\<rparr>))"

text \<open>\<open>await page.$(selector)\<close>: whether an element was found.\<close>

definition page_query :: "runtime \<Rightarrow> string \<Rightarrow> bool io" where
  "page_query rt sel =
     (\<lambda>w. io_bind (perform rt (Query sel)) (\<lambda>u. io_return (element_found rt (trace w) sel)) w)"

text \<open>
  \<open>await page.evaluate(callback)\<close>: the callback is applied, in the page, to the document of
  that moment, and what it returns is handed over by value.
\<close>

definition page_evaluate :: "runtime \<Rightarrow> (node \<Rightarrow> json) \<Rightarrow> json io" where
  "page_evaluate rt callback =
     (\<lambda>w. io_bind (perform rt Evaluate)
             (\<lambda>u. io_return (returned_by_value (callback (page_document rt (trace w))))) w)"

text \<open>\<open>page.url()\<close>\<close>

definition current_url :: "runtime \<Rightarrow> string io" where
  "current_url rt = (\<lambda>w. (Inr (page_url rt (trace w)), w))"


section \<open>The browser manager\<close>

definition checkLoginStatus :: "runtime \<Rightarrow> bool io" where
  "checkLoginStatus rt =
     (\<lambda>w. if page (session w) = None then (Inr False, w)
           else try_catch (page_query rt ''.dashboard, .project-list, .user-menu'')
                  (\<lambda>error. io_return False) w)"

definition set_isLoggedIn :: "bool \<Rightarrow> unit io" where
  "set_isLoggedIn b = (\<lambda>w. (Inr (), w\<lparr>session := (session w)\<lparr>isLoggedIn := b\<rparr>\<rparr>))"

text \<open>\<open>a || b\<close> on optional strings: \<open>b\<close> when \<open>a\<close> is \<open>undefined\<close> or empty.\<close>

definition js_or :: "string option \<Rightarrow> string option \<Rightarrow> string option" where
  "js_or a b = (case a of None \<Rightarrow> b | Some s \<Rightarrow> if s = [] then b else Some s)"

text \<open>The statements of \<open>login\<close> after the credentials are known to be there.\<close>

definition submit_login :: "runtime \<Rightarrow> string \<Rightarrow> string \<Rightarrow> bool io" where
  "submit_login rt user pass =
     io_bind (perform rt (WaitForSelector ''input[type=\"text\"], input[type=\"email\"]'' (Some 5000))) (\<lambda>u1.
     io_bind (perform rt (TypeText ''input[type=\"text\"], input[type=\"email\"]'' user)) (\<lambda>u2.
     io_bind (perform rt (TypeText ''input[type=\"password\"]'' pass)) (\<lambda>u3.
     io_bind (promise_all2 (perform rt (Click ''button[type=\"submit\"]''))
                           (perform rt WaitForNavigation)) (\<lambda>u4.
     io_bind (checkLoginStatus rt) (\<lambda>status.
     io_bind (set_isLoggedIn status) (\<lambda>u5.
     io_return status))))))"

definition login :: "runtime \<Rightarrow> string option \<Rightarrow> string option \<Rightarrow> bool io" where
  "login rt username password =
     (\<lambda>w. if page (session w) = None then io_throw (Error ''Browser not initialized'') w
           else try_catch
                  (io_bind (checkLoginStatus rt) (\<lambda>loggedIn.
                     if loggedIn then io_bind (set_isLoggedIn True) (\<lambda>u. io_return True)
                     else (case (js_or username (env_username rt), js_or password (env_password rt)) of
                             (Some user, Some pass) \<Rightarrow>
                               if user = [] \<or> pass = [] then io_return False
                               else submit_login rt user pass
                           | _ \<Rightarrow> io_return False)))
                  (\<lambda>error. io_return False) w)"


section \<open>The abstract tool\<close>

text \<open>
  A schema, by what its \<open>parse\<close> does: it throws a \<open>ZodError\<close> (given here by the messages of
  its issues and its own \<open>message\<close>) on parameters it rejects, and returns the validated
  parameters otherwise.
\<close>

type_synonym 'p schema = "json \<Rightarrow> (string list \<times> string) + 'p"

definition schema_parse :: "'p schema \<Rightarrow> json \<Rightarrow> 'p io" where
  "schema_parse schema raw =
     (case schema raw of
        Inl (issues, m) \<Rightarrow> io_throw (ZodError issues m)
      | Inr validated \<Rightarrow> io_return validated)"

text \<open>
  \<open>validateAndExecute\<close>, for a tool given by its schema and its \<open>execute\<close>. The calls of the
  logger are left out.
\<close>

definition catch_result :: "exn \<Rightarrow> ToolResult" where
  "catch_result err =
     (case err of
        ZodError issues m \<Rightarrow> fail_result (''Invalid parameters: '' @ join '', '' issues)
      | _ \<Rightarrow> fail_result (message_or ''Unknown error occurred'' err))"

definition validateAndExecute ::
  "'p schema \<Rightarrow> ('p \<Rightarrow> ToolResult io) \<Rightarrow> json \<Rightarrow> ToolResult io" where
  "validateAndExecute schema execute raw =
     try_catch
       (io_bind (schema_parse schema raw) (\<lambda>validated. execute validated))
       (\<lambda>error. io_return (catch_result error))"

definition ensureLoggedIn :: "runtime \<Rightarrow> bool io" where
  "ensureLoggedIn rt =
     (\<lambda>w. if \<not> isLoggedIn (session w)
           then io_bind (login rt None None) (\<lambda>loginSuccess.
                  if \<not> loginSuccess
                  then io_throw (Error ''Failed to login to OnlineEDA. Please check credentials.'')
                  else io_return True) w
           else io_return True w)"


section \<open>The navigation tool\<close>

datatype nav_action = Home | Projects | NewProject | Documentation | Settings

fun nav_action_name :: "nav_action \<Rightarrow> string" where
  "nav_action_name Home = ''home''"
| "nav_action_name Projects = ''projects''"
| "nav_action_name NewProject = ''new-project''"
| "nav_action_name Documentation = ''documentation''"
| "nav_action_name Settings = ''settings''"

fun nav_url :: "nav_action \<Rightarrow> string" where
  "nav_url Home = ''https://onlineeda.arcas-da.com/dashboard''"
| "nav_url Projects = ''https://onlineeda.arcas-da.com/projects''"
| "nav_url NewProject = ''https://onlineeda.arcas-da.com/projects/new''"
| "nav_url Documentation = ''https://onlineeda.arcas-da.com/docs''"
| "nav_url Settings = ''https://onlineeda.arcas-da.com/settings''"

record NavigateParams =
  nav_action :: nav_action
  nav_projectId :: "string option"

definition NavigateTool_execute :: "runtime \<Rightarrow> NavigateParams \<Rightarrow> ToolResult io" where
  "NavigateTool_execute rt p =
     io_bind (ensureLoggedIn rt) (\<lambda>u0 w.
       if page (session w) = None then io_return (fail_result ''Browser page not available'') w
       else try_catch
              (io_bind (perform rt (Goto (nav_url (nav_action p)))) (\<lambda>u1.
               io_bind (perform rt (WaitForTimeout 1000)) (\<lambda>u2.
               io_bind (current_url rt) (\<lambda>url.
               io_return (ok_result (JObj [ (''action'', JStr (nav_action_name (nav_action p))),
                                            (''currentUrl'', JStr url) ]))))))
              (\<lambda>error. io_return (fail_result
                 (''Navigation failed: '' @ message_or ''Unknown error'' error))) w)"


section \<open>The project tool\<close>

datatype project_action = Create | Open | List | Delete

datatype project_type = Formal | Equivalence | Power | Security | Fpga

fun project_type_name :: "project_type \<Rightarrow> string" where
  "project_type_name Formal = ''formal''"
| "project_type_name Equivalence = ''equivalence''"
| "project_type_name Power = ''power''"
| "project_type_name Security = ''security''"
| "project_type_name Fpga = ''fpga''"

record ProjectParams =
  prj_action :: project_action
  prj_projectName :: "string option"
  prj_projectType :: "project_type option"
  prj_projectId :: "string option"

definition createProject :: "runtime \<Rightarrow> string \<Rightarrow> string \<Rightarrow> ToolResult io" where
  "createProject rt name type =
     io_bind (perform rt (Goto ''https://onlineeda.arcas-da.com/projects/new'')) (\<lambda>u1.
     io_bind (perform rt (WaitForSelector ''input[name=\"projectName\"], #projectName'' None)) (\<lambda>u2.
     io_bind (perform rt (TypeText ''input[name=\"projectName\"], #projectName'' name)) (\<lambda>u3.
     io_bind (perform rt (Select ''select[name=\"projectType\"], #projectType'' type)) (\<lambda>u4.
     io_bind (promise_all2 (perform rt (Click ''button[type=\"submit\"], .create-project-btn''))
                           (perform rt WaitForNavigation)) (\<lambda>u5.
     io_return (ok_result (JObj [ (''projectName'', JStr name),
                                  (''projectType'', JStr type),
                                  (''message'', JStr ''Project created successfully'') ])))))))"

definition openProject :: "runtime \<Rightarrow> string \<Rightarrow> ToolResult io" where
  "openProject rt projectId =
     io_bind (perform rt (Goto (''https://onlineeda.arcas-da.com/projects/'' @ projectId))) (\<lambda>u1.
     io_bind (current_url rt) (\<lambda>url.
     io_return (ok_result (JObj [(''projectId'', JStr projectId), (''currentUrl'', JStr url)]))))"

definition listProjects :: "runtime \<Rightarrow> ToolResult io" where
  "listProjects rt =
     io_bind (perform rt (Goto ''https://onlineeda.arcas-da.com/projects'')) (\<lambda>u1.
     io_bind (page_evaluate rt list_projects_callback) (\<lambda>projects.
     io_return (ok_result (JObj ((''projects'', projects) # count_field projects)))))"

definition deleteProject :: "runtime \<Rightarrow> string \<Rightarrow> ToolResult io" where
  "deleteProject rt projectId =
     io_bind (perform rt (Goto (''https://onlineeda.arcas-da.com/projects/'' @ projectId @ ''/settings''))) (\<lambda>u1.
     io_bind (perform rt (Click ''.delete-project-btn, button[data-action=\"delete\"]'')) (\<lambda>u2.
     io_bind (perform rt (WaitForSelector ''.confirm-delete, .modal-confirm'' None)) (\<lambda>u3.
     io_bind (perform rt (Click ''.confirm-delete, button[data-confirm=\"delete\"]'')) (\<lambda>u4.
     io_return (ok_result (JObj [ (''projectId'', JStr projectId),
                                  (''message'', JStr ''Project deleted successfully'') ]))))))"

text \<open>\<open>!x\<close> for an optional string: \<open>undefined\<close> or empty.\<close>

definition falsy :: "string option \<Rightarrow> bool" where
  "falsy x = (case x of None \<Rightarrow> True | Some s \<Rightarrow> s = [])"

text \<open>
  The \<open>switch\<close> of \<open>ProjectTool.execute\<close>. A project type, when present, is one of five
  non-empty names, so \<open>!params.projectType\<close> holds exactly when it is absent; the \<open>default\<close>
  branch has no action left to take.
\<close>

definition project_switch :: "runtime \<Rightarrow> ProjectParams \<Rightarrow> ToolResult io" where
  "project_switch rt p =
     (case prj_action p of
        Create \<Rightarrow>
          (case (prj_projectName p, prj_projectType p) of
             (Some name, Some type) \<Rightarrow>
               if name = []
               then io_return (fail_result ''Project name and type are required for creating a project'')
               else createProject rt name (project_type_name type)
           | _ \<Rightarrow> io_return (fail_result ''Project name and type are required for creating a project''))
      | Open \<Rightarrow>
          (case prj_projectId p of
             Some projectId \<Rightarrow>
               if projectId = []
               then io_return (fail_result ''Project ID is required for opening a project'')
               else openProject rt projectId
           | None \<Rightarrow> io_return (fail_result ''Project ID is required for opening a project''))
      | List \<Rightarrow> listProjects rt
      | Delete \<Rightarrow>
          (case prj_projectId p of
             Some projectId \<Rightarrow>
               if projectId = []
               then io_return (fail_result ''Project ID is required for deleting a project'')
               else deleteProject rt projectId
           | None \<Rightarrow> io_return (fail_result ''Project ID is required for deleting a project'')))"

definition ProjectTool_execute :: "runtime \<Rightarrow> ProjectParams \<Rightarrow> ToolResult io" where
  "ProjectTool_execute rt p =
     io_bind (ensureLoggedIn rt) (\<lambda>u0 w.
       if page (session w) = None then io_return (fail_result ''Browser page not available'') w
       else try_catch (project_switch rt p)
              (\<lambda>error. io_return (fail_result
                 (''Project operation failed: '' @ message_or ''Unknown error'' error))) w)"


section \<open>The upload tool\<close>

datatype file_type = Verilog | SystemVerilog | Vhdl | Constraints | Other

record UploadFileParams =
  up_projectId :: string
  up_filePath :: string
  up_fileType :: "file_type option"

definition UploadFileTool_execute :: "runtime \<Rightarrow> UploadFileParams \<Rightarrow> ToolResult io" where
  "UploadFileTool_execute rt p =
     io_bind (ensureLoggedIn rt) (\<lambda>u0 w.
       if page (session w) = None then io_return (fail_result ''Browser page not available'') w
       else try_catch
              (let absolutePath = path_resolve rt (up_filePath p) in
               io_bind (perform rt (FsAccess absolutePath)) (\<lambda>u1.
               io_bind (perform rt (Goto (''https://onlineeda.arcas-da.com/projects/''
                                          @ up_projectId p @ ''/files''))) (\<lambda>u2.
               io_bind (page_query rt ''input[type=\"file\"]'') (\<lambda>fileInput.
               if \<not> fileInput then io_return (fail_result ''File upload input not found on page'')
               else
                 io_bind (perform rt (UploadFile absolutePath)) (\<lambda>u3.
                 io_bind (perform rt (WaitForSelector ''.upload-success, .file-uploaded'' (Some 30000))) (\<lambda>u4.
                 io_return (ok_result (JObj
                   [ (''projectId'', JStr (up_projectId p)),
                     (''fileName'', JStr (last (split_char (CHR ''/'') absolutePath))),
                     (''filePath'', JStr (up_filePath p)),
                     (''message'', JStr ''File uploaded successfully'') ]))))))))
              (\<lambda>error. io_return (fail_result
                 (''File upload failed: '' @ message_or ''Unknown error'' error))) w)"


section \<open>The verification tool\<close>

record VerificationOptions =
  timeout :: "int option"
  depth :: "int option"
  properties :: "string list option"

record RunVerificationParams =
  rv_projectId :: string
  rv_verificationType :: project_type
  rv_options :: "VerificationOptions option"

text \<open>
  \<open>(params.options?.timeout || 300) * 1000\<close>: a number that is absent or zero is falsy, and
  300 stands in for it.
\<close>

definition completion_timeout :: "RunVerificationParams \<Rightarrow> int" where
  "completion_timeout p =
     (case rv_options p of
        None \<Rightarrow> 300
      | Some opts \<Rightarrow> (case timeout opts of None \<Rightarrow> 300 | Some t \<Rightarrow> if t = 0 then 300 else t))
     * 1000"

text \<open>The block \<open>if (params.options) { ... }\<close>.\<close>

definition configure_options :: "runtime \<Rightarrow> RunVerificationParams \<Rightarrow> unit io" where
  "configure_options rt p =
     (case rv_options p of
        None \<Rightarrow> io_return ()
      | Some opts \<Rightarrow>
          io_bind (case timeout opts of
                     None \<Rightarrow> io_return ()
                   | Some t \<Rightarrow>
                       if t = 0 then io_return ()
                       else perform rt (TypeText ''input[name=\"timeout\"], #timeout'' (show_int t))) (\<lambda>u1.
          (case depth opts of
             None \<Rightarrow> io_return ()
           | Some d \<Rightarrow>
               if d = 0 then io_return ()
               else perform rt (TypeText ''input[name=\"depth\"], #depth'' (show_int d)))))"

definition extract_callback :: "node \<Rightarrow> json" where
  "extract_callback doc = results_json (extract_results doc)"

definition extractVerificationResults :: "runtime \<Rightarrow> json io" where
  "extractVerificationResults rt = page_evaluate rt extract_callback"

definition running_selector :: string where
  "running_selector = ''.verification-running, .progress-indicator''"

definition complete_selector :: string where
  "complete_selector = ''.verification-complete, .results-ready''"

definition RunVerificationTool_execute :: "runtime \<Rightarrow> RunVerificationParams \<Rightarrow> ToolResult io" where
  "RunVerificationTool_execute rt p =
     io_bind (ensureLoggedIn rt) (\<lambda>u0 w.
       if page (session w) = None then io_return (fail_result ''Browser page not available'') w
       else try_catch
              (io_bind (perform rt (Goto (''https://onlineeda.arcas-da.com/projects/''
                                          @ rv_projectId p @ ''/verify''))) (\<lambda>u1.
               io_bind (perform rt (Select ''select[name=\"verificationType\"], #verificationType''
                                      (project_type_name (rv_verificationType p)))) (\<lambda>u2.
               io_bind (configure_options rt p) (\<lambda>u3.
               io_bind (promise_all2
                          (perform rt (Click ''button.run-verification, button[type=\"submit\"]''))
                          (perform rt (WaitForSelector running_selector (Some 5000)))) (\<lambda>u4.
               io_bind (perform rt (WaitForSelector complete_selector
                                      (Some (completion_timeout p)))) (\<lambda>u5.
               io_bind (extractVerificationResults rt) (\<lambda>results.
               io_return (ok_result (JObj
                 [ (''projectId'', JStr (rv_projectId p)),
                   (''verificationType'', JStr (project_type_name (rv_verificationType p))),
                   (''results'', results) ])))))))))
              (\<lambda>error. io_return (fail_result
                 (''Verification failed: '' @ message_or ''Unknown error'' error))) w)"


section \<open>The natural-language tool as a tool\<close>

definition NaturalLanguageTool_execute :: "NaturalLanguageParams \<Rightarrow> ToolResult io" where
  "NaturalLanguageTool_execute p =
     try_catch (io_return (resolve_intent examples p))
       (\<lambda>error. io_return (fail_result
          (''Natural language processing failed: '' @ message_or ''Unknown error'' error)))"


section \<open>The registered tools\<close>

text \<open>The five schemas, each by its \<open>parse\<close>.\<close>

record schemas =
  NavigateSchema :: "NavigateParams schema"
  ProjectSchema :: "ProjectParams schema"
  UploadFileSchema :: "UploadFileParams schema"
  RunVerificationSchema :: "RunVerificationParams schema"
  NaturalLanguageSchema :: "NaturalLanguageParams schema"

text \<open>
  The map that \<open>setupTools\<close> fills, from the name of a tool to its \<open>validateAndExecute\<close>;
  \<open>tools.get(name)\<close> is \<open>None\<close> for a name that is not registered.
\<close>

definition tools :: "runtime \<Rightarrow> schemas \<Rightarrow> string \<Rightarrow> (json \<Rightarrow> ToolResult io) option" where
  "tools rt sch name =
     (if name = ''arcas_onlineeda_navigate''
      then Some (validateAndExecute (NavigateSchema sch) (NavigateTool_execute rt))
      else if name = ''arcas_onlineeda_project''
      then Some (validateAndExecute (ProjectSchema sch) (ProjectTool_execute rt))
      else if name = ''arcas_onlineeda_upload_file''
      then Some (validateAndExecute (UploadFileSchema sch) (UploadFileTool_execute rt))
      else if name = ''arcas_onlineeda_run_verification''
      then Some (validateAndExecute (RunVerificationSchema sch) (RunVerificationTool_execute rt))
      else if name = ''arcas_onlineeda_natural_language''
      then Some (validateAndExecute (NaturalLanguageSchema sch) NaturalLanguageTool_execute)
      else None)"

text \<open>The state of the browser manager when it is constructed, and after \<open>initialize\<close>.\<close>

definition initial_session :: SessionState where
  "initial_session = \<lparr>browser = None, page = None, isLoggedIn = False, currentProject = None\<rparr>"

definition initial_world :: world where
  "initial_world = \<lparr>session = initial_session, trace = []\<rparr>"

definition ready_world :: world where
  "ready_world = \<lparr>session = initial_session\<lparr>browser := Some (), page := Some ()\<rparr>, trace = []\<rparr>"


section \<open>Specifications of computations\<close>

text \<open>
  \<open>outcomes m Q E\<close>: from every state, what \<open>m\<close> returns satisfies \<open>Q\<close> and what it throws
  satisfies \<open>E\<close>.
\<close>

definition outcomes :: "'a io \<Rightarrow> ('a \<Rightarrow> bool) \<Rightarrow> (exn \<Rightarrow> bool) \<Rightarrow> bool" where
  "outcomes m Q E = (\<forall>w. case m w of (Inl e, w') \<Rightarrow> E e | (Inr x, w') \<Rightarrow> Q x)"

text \<open>The calls of \<open>page.goto\<close> in a trace, and a computation that adds none.\<close>

fun is_goto :: "call \<Rightarrow> bool" where
  "is_goto (Goto url) = True"
| "is_goto c = False"

definition adds_no_goto :: "'a io \<Rightarrow> bool" where
  "adds_no_goto m = (\<forall>w. filter is_goto (trace (snd (m w))) = filter is_goto (trace w))"

text \<open>The two errors that leave \<open>ensureLoggedIn\<close>.\<close>

definition login_error :: "exn \<Rightarrow> bool" where
  "login_error e =
     (e = Error ''Browser not initialized''
      \<or> e = Error ''Failed to login to OnlineEDA. Please check credentials.'')"

text \<open>A failure: \<open>success\<close> is false and there is no \<open>data\<close>.\<close>

definition failed :: "ToolResult \<Rightarrow> bool" where
  "failed r = (\<not> success r \<and> data r = None)"


section \<open>Sample surroundings\<close>

text \<open>
  A page on which nothing is found and every call resolves, with no credentials in the
  environment and paths that are absolute already.
\<close>

definition blank_runtime :: runtime where
  "blank_runtime =
     \<lparr> rejects = (\<lambda>h c. None), element_found = (\<lambda>h sel. False), page_url = (\<lambda>h. []),
       page_document = (\<lambda>h. Element [] [] []), env_username = None, env_password = None,
       path_resolve = (\<lambda>p. p) \<rparr>"

text \<open>A schema that accepts everything as one given value, and one that rejects everything.\<close>

definition accepting :: "'p \<Rightarrow> 'p schema" where
  "accepting p = (\<lambda>raw. Inr p)"

definition rejecting :: "'p schema" where
  "rejecting = (\<lambda>raw. Inl ([''Required'', ''Expected string, received number''], ''invalid''))"

definition list_projects_params :: ProjectParams where
  "list_projects_params =
     \<lparr>prj_action = List, prj_projectName = None, prj_projectType = None, prj_projectId = None\<rparr>"

definition sample_schemas :: schemas where
  "sample_schemas =
     \<lparr> NavigateSchema = rejecting, ProjectSchema = accepting list_projects_params,
       UploadFileSchema = rejecting, RunVerificationSchema = rejecting,
       NaturalLanguageSchema = rejecting \<rparr>"




text \<open>A page that shows a session, and a file system on which no path can be accessed.\<close>

definition no_files_runtime :: runtime where
  "no_files_runtime =
     blank_runtime
       \<lparr> rejects := (\<lambda>h c. case c of FsAccess path \<Rightarrow> Some (Error ''ENOENT'') | _ \<Rightarrow> None),
         element_found := (\<lambda>h sel. True) \<rparr>"

definition upload_params :: UploadFileParams where
  "upload_params = \<lparr>up_projectId = ''p1'', up_filePath = ''/missing.v'', up_fileType = None\<rparr>"

text \<open>A document whose only marker is the one of the total, with a text that is no number.\<close>

definition na_document :: node where
  "na_document = Element [] [] [Element [''total-checks''] [] [Text ''N/A'']]"

definition na_runtime :: runtime where
  "na_runtime = blank_runtime \<lparr>page_document := (\<lambda>h. na_document)\<rparr>"

definition cpu_query :: string where
  "cpu_query = ''I want to create a new formal verification project for my CPU design''"


section \<open>The score of stage A in the words of the specification\<close>

text \<open>
  The specification words the score over sets: the query and the example, in lower case, are
  split on white space into sets of tokens, and the score is the size of the intersection over
  the larger of the two sizes. This second definition is only compared with \<open>score\<close>.
\<close>

fun split_where :: "(char \<Rightarrow> bool) \<Rightarrow> string \<Rightarrow> string \<Rightarrow> string list" where
  "split_where sep acc [] = [rev acc]"
| "split_where sep acc (c # cs) =
     (if sep c then rev acc # split_where sep [] cs else split_where sep (c # acc) cs)"

definition spec_token_set :: "string \<Rightarrow> string list" where
  "spec_token_set s = remdups (filter (\<lambda>t. t \<noteq> []) (split_where is_space [] (toLowerCase s)))"

definition spec_token_set_score :: "string \<Rightarrow> Example \<Rightarrow> rat" where
  "spec_token_set_score q e =
     (let queryTokens = spec_token_set q;
          exampleTokens = spec_token_set (query e);
          common = filter (\<lambda>t. t \<in> set exampleTokens) queryTokens
      in of_nat (length common) / of_nat (max (length queryTokens) (length exampleTokens)))"


section \<open>Callers of \<open>ensureLoggedIn\<close> that overlap\<close>

text \<open>
  Requests are handled on one thread: the statements of a handler run without interruption up
  to an \<open>await\<close> of a call on the page, and while that call is pending the statements of
  another handler may run. So the calls of \<open>ensureLoggedIn\<close> by several callers are modelled
  as steps, one step being what one caller runs between two such \<open>await\<close>s, taken in any
  order. As in \<open>perform\<close>, the outcome of a call is fixed by the calls made before it.

  Where a caller of \<open>ensureLoggedIn\<close> stands: it has not called yet; or it is suspended at one
  of the \<open>await\<close>s of \<open>login\<close>, with the outcome that the awaited call will have and the
  credentials still to be typed; or it has returned or thrown.
\<close>

datatype caller =
    Idle
  | AwaitStatus "exn + bool"
  | AwaitForm string string "exn + unit"
  | AwaitTypeUser string "exn + unit"
  | AwaitTypePass "exn + unit"
  | AwaitSubmit "exn + unit"
  | AwaitStatusAgain "exn + bool"
  | Returned "exn + bool"

definition login_failed :: caller where
  "login_failed = Returned (Inl (Error ''Failed to login to OnlineEDA. Please check credentials.''))"

text \<open>Making the call of the next \<open>await\<close>, and suspending with its outcome.\<close>

definition suspend :: "'a io \<Rightarrow> ((exn + 'a) \<Rightarrow> caller) \<Rightarrow> world \<Rightarrow> caller \<times> world" where
  "suspend m k w = (case m w of (r, w') \<Rightarrow> (k r, w'))"

text \<open>
  The statements a caller runs without interruption, from where it stands to its next
  \<open>await\<close> of a call on the page or to its end.
\<close>

fun advance :: "runtime \<Rightarrow> caller \<Rightarrow> world \<Rightarrow> caller \<times> world" where
  "advance rt Idle w =
     (if isLoggedIn (session w) then (Returned (Inr True), w)
      else if page (session w) = None then (Returned (Inl (Error ''Browser not initialized'')), w)
      else suspend (page_query rt ''.dashboard, .project-list, .user-menu'') AwaitStatus w)"
| "advance rt (AwaitStatus r) w =
     (if r = Inr True
      then (Returned (Inr True), w\<lparr>session := (session w)\<lparr>isLoggedIn := True\<rparr>\<rparr>)
      else (case (js_or None (env_username rt), js_or None (env_password rt)) of
              (Some user, Some pass) \<Rightarrow>
                if user = [] \<or> pass = [] then (login_failed, w)
                else suspend (perform rt (WaitForSelector
                                ''input[type=\"text\"], input[type=\"email\"]'' (Some 5000)))
                       (AwaitForm user pass) w
            | _ \<Rightarrow> (login_failed, w)))"
| "advance rt (AwaitForm user pass r) w =
     (case r of
        Inl e \<Rightarrow> (login_failed, w)
      | Inr u \<Rightarrow> suspend (perform rt (TypeText ''input[type=\"text\"], input[type=\"email\"]'' user))
                   (AwaitTypeUser pass) w)"
| "advance rt (AwaitTypeUser pass r) w =
     (case r of
        Inl e \<Rightarrow> (login_failed, w)
      | Inr u \<Rightarrow> suspend (perform rt (TypeText ''input[type=\"password\"]'' pass)) AwaitTypePass w)"
| "advance rt (AwaitTypePass r) w =
     (case r of
        Inl e \<Rightarrow> (login_failed, w)
      | Inr u \<Rightarrow> suspend (promise_all2 (perform rt (Click ''button[type=\"submit\"]''))
                                       (perform rt WaitForNavigation)) AwaitSubmit w)"
| "advance rt (AwaitSubmit r) w =
     (case r of
        Inl e \<Rightarrow> (login_failed, w)
      | Inr u \<Rightarrow>
          if page (session w) = None
          then (login_failed, w\<lparr>session := (session w)\<lparr>isLoggedIn := False\<rparr>\<rparr>)
          else suspend (page_query rt ''.dashboard, .project-list, .user-menu'') AwaitStatusAgain w)"
| "advance rt (AwaitStatusAgain r) w =
     (if r = Inr True
      then (Returned (Inr True), w\<lparr>session := (session w)\<lparr>isLoggedIn := True\<rparr>\<rparr>)
      else (login_failed, w\<lparr>session := (session w)\<lparr>isLoggedIn := False\<rparr>\<rparr>))"
| "advance rt (Returned r) w = (Returned r, w)"

text \<open>Several callers over one browser manager.\<close>

record system =
  shared :: world
  callers :: "caller list"

text \<open>Caller \<open>i\<close> runs up to its next \<open>await\<close>.\<close>

definition sys_step :: "runtime \<Rightarrow> system \<Rightarrow> nat \<Rightarrow> system" where
  "sys_step rt s i =
     (if i < length (callers s)
      then (case advance rt (callers s ! i) (shared s) of
              (c', w') \<Rightarrow> \<lparr>shared = w', callers = (callers s)[i := c']\<rparr>)
      else s)"

text \<open>A schedule names the caller that runs next, again and again.\<close>

definition run_schedule :: "runtime \<Rightarrow> nat list \<Rightarrow> system \<Rightarrow> system" where
  "run_schedule rt schedule s = foldl (sys_step rt) s schedule"

definition two_callers :: "world \<Rightarrow> system" where
  "two_callers w = \<lparr>shared = w, callers = [Idle, Idle]\<rparr>"

definition one_caller :: "world \<Rightarrow> system" where
  "one_caller w = \<lparr>shared = w, callers = [Idle]\<rparr>"

text \<open>
  A caller is inside a login attempt when it stands at one of the \<open>await\<close>s of \<open>login\<close>; the
  attempts in flight are the callers that are.
\<close>

fun in_login :: "caller \<Rightarrow> bool" where
  "in_login Idle = False"
| "in_login (Returned r) = False"
| "in_login c = True"

definition attempts_in_flight :: "system \<Rightarrow> nat" where
  "attempts_in_flight s = length (filter in_login (callers s))"

text \<open>The calls of a login attempt on the page, in their order.\<close>

definition status_check :: call where
  "status_check = Query ''.dashboard, .project-list, .user-menu''"

definition form_wait :: call where
  "form_wait = WaitForSelector ''input[type=\"text\"], input[type=\"email\"]'' (Some 5000)"

definition type_user :: "string \<Rightarrow> call" where
  "type_user user = TypeText ''input[type=\"text\"], input[type=\"email\"]'' user"

definition type_pass :: "string \<Rightarrow> call" where
  "type_pass pass = TypeText ''input[type=\"password\"]'' pass"

definition submit_click :: call where
  "submit_click = Click ''button[type=\"submit\"]''"

text \<open>
  A login page: the session marker is found once a submit button has been clicked, and the
  login form is gone from then on; the environment holds credentials.
\<close>

definition clicked :: "call list \<Rightarrow> bool" where
  "clicked h = list_ex (\<lambda>c. case c of Click sel \<Rightarrow> True | _ \<Rightarrow> False) h"

definition login_page_runtime :: runtime where
  "login_page_runtime =
     blank_runtime
       \<lparr> rejects := (\<lambda>h c. case c of
                       WaitForSelector sel t \<Rightarrow> if clicked h then Some (Error ''TimeoutError'') else None
                     | TypeText sel t \<Rightarrow> if clicked h then Some (Error ''No element found'') else None
                     | _ \<Rightarrow> None),
         element_found := (\<lambda>h sel. clicked h),
         env_username := Some ''user'', env_password := Some ''secret'' \<rparr>"


section \<open>Rules for outcomes\<close>

lemma outcomes_return: "Q x \<Longrightarrow> outcomes (io_return x) Q E"
  by (simp add: outcomes_def io_return_def)

lemma outcomes_throw: "E e \<Longrightarrow> outcomes (io_throw e) Q E"
  by (simp add: outcomes_def io_throw_def)

lemma outcomes_bind:
  assumes "outcomes m Q' E" and "\<And>x. Q' x \<Longrightarrow> outcomes (f x) Q E"
  shows "outcomes (io_bind m f) Q E"
  unfolding outcomes_def io_bind_def
proof
  fix w
  obtain r w' where mw: "m w = (r, w')" by (cases "m w")
  show "case (case m w of (Inl e, w') \<Rightarrow> (Inl e, w') | (Inr x, w') \<Rightarrow> f x w') of
          (Inl e, w') \<Rightarrow> E e | (Inr x, w') \<Rightarrow> Q x"
  proof (cases r)
    case (Inl e)
    with mw assms(1) show ?thesis by (auto simp: outcomes_def dest: spec [of _ w])
  next
    case (Inr x)
    with mw assms(1) have "Q' x" by (auto simp: outcomes_def dest: spec [of _ w])
    from assms(2) [OF this] have "case f x w' of (Inl e, w'') \<Rightarrow> E e | (Inr y, w'') \<Rightarrow> Q y"
      by (simp add: outcomes_def)
    with mw Inr show ?thesis by simp
  qed
qed

lemma outcomes_try:
  assumes "outcomes m Q E'" and "\<And>e. E' e \<Longrightarrow> outcomes (h e) Q E"
  shows "outcomes (try_catch m h) Q E"
  unfolding outcomes_def try_catch_def
proof
  fix w
  obtain r w' where mw: "m w = (r, w')" by (cases "m w")
  show "case (case m w of (Inl e, w') \<Rightarrow> h e w' | (Inr x, w') \<Rightarrow> (Inr x, w')) of
          (Inl e, w') \<Rightarrow> E e | (Inr x, w') \<Rightarrow> Q x"
  proof (cases r)
    case (Inl e)
    with mw assms(1) have "E' e" by (auto simp: outcomes_def dest: spec [of _ w])
    from assms(2) [OF this] have "case h e w' of (Inl e, w'') \<Rightarrow> E e | (Inr y, w'') \<Rightarrow> Q y"
      by (simp add: outcomes_def)
    with mw Inl show ?thesis by simp
  next
    case (Inr x)
    with mw assms(1) show ?thesis by (auto simp: outcomes_def dest: spec [of _ w])
  qed
qed

lemma outcomes_if:
  "outcomes m Q E \<Longrightarrow> outcomes m' Q E \<Longrightarrow> outcomes (\<lambda>w. if c w then m w else m' w) Q E"
  by (simp add: outcomes_def)

lemma outcomes_iff:
  "outcomes m Q E \<longleftrightarrow>
     (\<forall>w e w'. m w = (Inl e, w') \<longrightarrow> E e) \<and> (\<forall>w x w'. m w = (Inr x, w') \<longrightarrow> Q x)"
proof
  assume a: "outcomes m Q E"
  show "(\<forall>w e w'. m w = (Inl e, w') \<longrightarrow> E e) \<and> (\<forall>w x w'. m w = (Inr x, w') \<longrightarrow> Q x)"
  proof (intro conjI allI impI)
    fix w e w' assume "m w = (Inl e, w')"
    with a [unfolded outcomes_def, THEN spec, of w] show "E e" by simp
  next
    fix w x w' assume "m w = (Inr x, w')"
    with a [unfolded outcomes_def, THEN spec, of w] show "Q x" by simp
  qed
next
  assume b: "(\<forall>w e w'. m w = (Inl e, w') \<longrightarrow> E e) \<and> (\<forall>w x w'. m w = (Inr x, w') \<longrightarrow> Q x)"
  show "outcomes m Q E"
    unfolding outcomes_def
  proof
    fix w
    obtain r w' where mw: "m w = (r, w')" by (cases "m w")
    with b show "case m w of (Inl e, w') \<Rightarrow> E e | (Inr x, w') \<Rightarrow> Q x"
      by (cases r; simp; blast)
  qed
qed

lemma outcomes_weaken:
  "outcomes m Q' E' \<Longrightarrow> (\<And>x. Q' x \<Longrightarrow> Q x) \<Longrightarrow> (\<And>e. E' e \<Longrightarrow> E e) \<Longrightarrow> outcomes m Q E"
  unfolding outcomes_iff by blast

lemma outcomes_any: "outcomes m (\<lambda>x. True) (\<lambda>e. True)"
  by (simp add: outcomes_def split: prod.splits sum.splits)

text \<open>Whatever the first statement does, the rest decides what is returned.\<close>

lemma outcomes_bind_any:
  "(\<And>x. outcomes (f x) Q (\<lambda>e. True)) \<Longrightarrow> outcomes (io_bind m f) Q (\<lambda>e. True)"
  by (rule outcomes_bind [OF outcomes_any])



section \<open>What leaves \<open>login\<close> and \<open>ensureLoggedIn\<close>\<close>

lemma outcomes_checkLoginStatus: "outcomes (checkLoginStatus rt) (\<lambda>b. True) (\<lambda>e. False)"
  unfolding checkLoginStatus_def
  by (intro outcomes_if outcomes_try [where E' = "\<lambda>e. True"] outcomes_return outcomes_any)
     (simp_all add: outcomes_def)

lemma outcomes_login:
  "outcomes (login rt username password) (\<lambda>b. True) (\<lambda>e. e = Error ''Browser not initialized'')"
  unfolding login_def
  by (intro outcomes_if outcomes_throw outcomes_try [where E' = "\<lambda>e. True"] outcomes_return
        outcomes_any) simp_all

lemma outcomes_ensureLoggedIn: "outcomes (ensureLoggedIn rt) (\<lambda>b. True) login_error"
  unfolding ensureLoggedIn_def
  apply (rule outcomes_if [of _ _ _ _ "\<lambda>w. \<not> isLoggedIn (session w)"])
   apply (rule outcomes_bind [OF outcomes_login [THEN outcomes_weaken [where Q = "\<lambda>b. True" and E = login_error]]])
     apply simp
    apply (simp add: login_error_def)
   apply (simp add: outcomes_return outcomes_throw login_error_def)
  apply (rule outcomes_return) apply simp
  done

section \<open>What leaves the tools\<close>

lemma contract_ok [simp]: "contract (ok_result d)"
  by (simp add: contract_def ok_result_def)

lemma contract_fail [simp]: "contract (fail_result m) \<longleftrightarrow> m \<noteq> []"
  by (simp add: contract_def fail_result_def)

lemma outcomes_handler:
  "prefix \<noteq> [] \<Longrightarrow> outcomes (io_return (fail_result (prefix @ msg))) contract E"
  by (rule outcomes_return) simp

lemma outcomes_tool:
  assumes "outcomes body Q (\<lambda>e. True)" and "\<And>e. Q (h e)"
    and "Q (fail_result ''Browser page not available'')"
  shows "outcomes (io_bind (ensureLoggedIn rt) (\<lambda>u0 w.
           if page (session w) = None then io_return (fail_result ''Browser page not available'') w
           else try_catch body (\<lambda>error. io_return (h error)) w)) Q login_error"
proof (rule outcomes_bind [OF outcomes_ensureLoggedIn])
  fix x :: bool
  show "outcomes (\<lambda>w. if page (session w) = None
          then io_return (fail_result ''Browser page not available'') w
          else try_catch body (\<lambda>error. io_return (h error)) w) Q login_error"
  proof (rule outcomes_if)
    show "outcomes (io_return (fail_result ''Browser page not available'')) Q login_error"
      by (rule outcomes_return) (rule assms(3))
    show "outcomes (try_catch body (\<lambda>error. io_return (h error))) Q login_error"
      by (rule outcomes_try [OF assms(1)]) (rule outcomes_return, rule assms(2))
  qed
qed

lemma NavigateTool_outcomes: "outcomes (NavigateTool_execute rt p) contract login_error"
  unfolding NavigateTool_execute_def
  by (rule outcomes_tool) (intro outcomes_bind_any outcomes_return, simp_all)

lemma project_switch_outcomes: "outcomes (project_switch rt p) contract (\<lambda>e. True)"
  unfolding project_switch_def createProject_def openProject_def listProjects_def deleteProject_def
  by (auto split: project_action.splits option.splits intro!: outcomes_bind_any outcomes_return)

lemma ProjectTool_outcomes: "outcomes (ProjectTool_execute rt p) contract login_error"
  unfolding ProjectTool_execute_def
  by (rule outcomes_tool) (simp_all add: project_switch_outcomes)

lemma UploadFileTool_outcomes: "outcomes (UploadFileTool_execute rt p) contract login_error"
  unfolding UploadFileTool_execute_def Let_def
  by (rule outcomes_tool) (auto intro!: outcomes_bind_any outcomes_return)

lemma RunVerificationTool_outcomes: "outcomes (RunVerificationTool_execute rt p) contract login_error"
  unfolding RunVerificationTool_execute_def
  by (rule outcomes_tool) (intro outcomes_bind_any outcomes_return, simp_all)

lemma contract_resolve_intent: "contract (resolve_intent exs p)"
  by (simp add: resolve_intent_def Let_def suggestProjectCreation_def suggestVerification_def
      suggestFileUpload_def suggestNavigation_def suggestGetResults_def provideEnhancedHelp_def
      provideFallbackWithExamples_def split: option.splits)

lemma NaturalLanguageTool_outcomes: "outcomes (NaturalLanguageTool_execute p) contract login_error"
  unfolding NaturalLanguageTool_execute_def
  by (rule outcomes_try [where E' = "\<lambda>e. True"])
     (simp_all add: outcomes_return contract_resolve_intent)

lemma contract_catch_login: "login_error e \<Longrightarrow> contract (catch_result e)"
  by (auto simp: login_error_def catch_result_def)

lemma contract_catch_zod: "contract (catch_result (ZodError issues m))"
  by (simp add: catch_result_def)

lemma outcomes_validateAndExecute:
  assumes "\<And>p. outcomes (execute p) Q E"
    and "\<And>r. Q r \<Longrightarrow> R r" and "\<And>e. E e \<Longrightarrow> R (catch_result e)"
    and "\<And>issues m. R (catch_result (ZodError issues m))"
  shows "outcomes (validateAndExecute schema execute raw) R (\<lambda>e. False)"
  unfolding validateAndExecute_def
proof (rule outcomes_try [where E' = "\<lambda>e. E e \<or> (\<exists>issues m. e = ZodError issues m)"])
  show "outcomes (io_bind (schema_parse schema raw) execute) R
          (\<lambda>e. E e \<or> (\<exists>issues m. e = ZodError issues m))"
  proof (rule outcomes_bind [where Q' = "\<lambda>p. True"])
    show "outcomes (schema_parse schema raw) (\<lambda>p. True) (\<lambda>e. E e \<or> (\<exists>issues m. e = ZodError issues m))"
      by (auto simp: schema_parse_def outcomes_return outcomes_throw split: sum.splits)
    show "outcomes (execute x) R (\<lambda>e. E e \<or> (\<exists>issues m. e = ZodError issues m))" for x
      by (rule outcomes_weaken [OF assms(1)]) (simp_all add: assms(2))
  qed
  show "outcomes (io_return (catch_result e)) R (\<lambda>e. False)"
    if "E e \<or> (\<exists>issues m. e = ZodError issues m)" for e
    using that assms(3,4) by (auto intro: outcomes_return)
qed

lemma outcomes_result:
  "outcomes m R (\<lambda>e. False) \<Longrightarrow> \<exists>r w'. m w = (Inr r, w') \<and> R r"
proof -
  assume a: "outcomes m R (\<lambda>e. False)"
  obtain x w' where mw: "m w = (x, w')" by (cases "m w")
  show ?thesis
  proof (cases x)
    case (Inl e)
    with a mw show ?thesis unfolding outcomes_iff by blast
  next
    case (Inr r)
    with a mw have "R r" unfolding outcomes_iff by blast
    with mw Inr show ?thesis by simp
  qed
qed


section \<open>The dispatch boundary\<close>

text \<open>
  C1. \<open>validateAndExecute\<close> never throws: from every state, for every schema, every handler
  and every raw argument it returns a result. When the schema rejects the argument, the result
  is the failure whose message is \<open>Invalid parameters: \<close> followed by the messages of the
  issues joined by a comma and a space, the state is untouched, and the same holds whatever the
  handler is (it is not called). When the handler throws, the result is a failure carrying the
  message of what was thrown. When the handler returns, its result is passed on.
\<close>

theorem validateAndExecute_never_raises:
  "\<exists>r w'. validateAndExecute schema execute raw w = (Inr r, w')
     \<and> (\<forall>issues m. schema raw = Inl (issues, m) \<longrightarrow>
           r = fail_result (''Invalid parameters: '' @ join '', '' issues) \<and> w' = w
           \<and> (\<forall>execute'. validateAndExecute schema execute' raw w = (Inr r, w)))
     \<and> (\<forall>p e w1. schema raw = Inr p \<and> execute p w = (Inl e, w1) \<longrightarrow>
           failed r \<and> w' = w1
           \<and> error r = Some (case e of
                 ZodError issues m \<Rightarrow> ''Invalid parameters: '' @ join '', '' issues
               | Error m \<Rightarrow> m
               | NonError \<Rightarrow> ''Unknown error occurred''))
     \<and> (\<forall>p r1 w1. schema raw = Inr p \<and> execute p w = (Inr r1, w1) \<longrightarrow> r = r1 \<and> w' = w1)"
proof (cases "schema raw")
  case (Inl zod)
  then show ?thesis
    by (cases zod) (simp add: validateAndExecute_def try_catch_def io_bind_def io_return_def
        io_throw_def schema_parse_def catch_result_def)
next
  case (Inr p)
  obtain x w1 where ex: "execute p w = (x, w1)" by (cases "execute p w")
  show ?thesis
  proof (cases x)
    case (Inl e)
    with Inr ex show ?thesis
      by (cases e) (simp_all add: validateAndExecute_def try_catch_def io_bind_def io_return_def
          schema_parse_def catch_result_def fail_result_def failed_def)
  next
    case r: (Inr r1)
    with Inr ex show ?thesis
      by (simp add: validateAndExecute_def try_catch_def io_bind_def io_return_def schema_parse_def)
  qed
qed

theorem validateAndExecute_never_raises_witness:
  "\<exists>r. validateAndExecute (rejecting :: json schema) (\<lambda>p. io_throw NonError) JNull initial_world
         = (Inr r, initial_world)
       \<and> r = fail_result ''Invalid parameters: Required, Expected string, received number''"
proof -
  let ?exec = "\<lambda>p::json. (io_throw NonError :: ToolResult io)"
  let ?rej = "rejecting :: json schema"
  from validateAndExecute_never_raises [of ?rej ?exec JNull initial_world]
  obtain r w' where a: "validateAndExecute ?rej ?exec JNull initial_world = (Inr r, w')"
    and b: "\<forall>issues m. ?rej JNull = Inl (issues, m) \<longrightarrow>
           r = fail_result (''Invalid parameters: '' @ join '', '' issues) \<and> w' = initial_world
           \<and> (\<forall>execute'. validateAndExecute ?rej execute' JNull initial_world
                 = (Inr r, initial_world))"
    by (elim exE conjE)
  from b have c: "r = fail_result (''Invalid parameters: ''
        @ join '', '' [''Required'', ''Expected string, received number'']) \<and> w' = initial_world"
    by (simp add: rejecting_def)
  have d: "join '', '' [''Required'', ''Expected string, received number'']
        = ''Required, Expected string, received number''"
    by simp
  from a c d show ?thesis by (intro exI [of _ r]) simp
qed

text \<open>
  C2. Every result that the \<open>validateAndExecute\<close> of a registered tool produces keeps the
  contract: with \<open>success\<close> there is \<open>data\<close> and no \<open>error\<close>; without it there is no \<open>data\<close>
  and \<open>error\<close> is a message that is not empty. A result is produced from every state.
\<close>

theorem registered_tools_keep_contract:
  "tools rt sch name = Some t \<Longrightarrow> \<exists>r w'. t raw w = (Inr r, w') \<and> contract r"
proof -
  assume a: "tools rt sch name = Some t"
  have "outcomes (t raw) contract (\<lambda>e. False)"
    using a unfolding tools_def
    by (auto split: if_splits
        intro!: outcomes_validateAndExecute [where Q = contract and E = login_error]
          NavigateTool_outcomes ProjectTool_outcomes UploadFileTool_outcomes
          RunVerificationTool_outcomes NaturalLanguageTool_outcomes
          contract_catch_login contract_catch_zod)
  then show ?thesis by (rule outcomes_result)
qed

theorem registered_tools_keep_contract_witness:
  "tools blank_runtime sample_schemas ''arcas_onlineeda_project''
     = Some (validateAndExecute (accepting list_projects_params) (ProjectTool_execute blank_runtime))
   \<and> (\<exists>r w'. validateAndExecute (accepting list_projects_params) (ProjectTool_execute blank_runtime)
                JNull ready_world = (Inr r, w') \<and> contract r)"
proof -
  have a: "tools blank_runtime sample_schemas ''arcas_onlineeda_project''
     = Some (validateAndExecute (accepting list_projects_params) (ProjectTool_execute blank_runtime))"
    by (simp add: tools_def sample_schemas_def)
  from registered_tools_keep_contract [OF a, of JNull ready_world] a show ?thesis by simp
qed


section \<open>A failed login and the operations\<close>

lemma bind_throws: "m w = (Inl e, w1) \<Longrightarrow> io_bind m f w = (Inl e, w1)"
  by (simp add: io_bind_def)

lemma validate_throws:
  "schema raw = Inr p \<Longrightarrow> execute p w = (Inl e, w1) \<Longrightarrow>
     validateAndExecute schema execute raw w = (Inr (catch_result e), w1)"
  by (simp add: validateAndExecute_def try_catch_def io_bind_def io_return_def schema_parse_def)

lemma ensureLoggedIn_throws:
  "ensureLoggedIn rt w = (Inl e, w1) \<Longrightarrow> login_error e"
  using outcomes_ensureLoggedIn [of rt] unfolding outcomes_iff by blast

lemma catch_login_error:
  "login_error e \<Longrightarrow> catch_result e = fail_result (message_or ''Unknown error occurred'' e)"
  by (auto simp: login_error_def catch_result_def)

lemma blank_login_fails:
  "ensureLoggedIn blank_runtime ready_world
     = (Inl (Error ''Failed to login to OnlineEDA. Please check credentials.''),
        ready_world\<lparr>trace := [Query ''.dashboard, .project-list, .user-menu'']\<rparr>)"
  by (simp add: ensureLoggedIn_def login_def checkLoginStatus_def page_query_def perform_def
      io_bind_def io_return_def io_throw_def try_catch_def blank_runtime_def ready_world_def
      initial_session_def js_or_def)

text \<open>
  C3, as the code has it. In each of the four operations \<open>ensureLoggedIn\<close> is called before the
  \<open>try\<close> of \<open>execute\<close>, so what it throws leaves \<open>execute\<close> as it is, in the same state; it
  is one of the two login errors; and \<open>validateAndExecute\<close> is where it is caught and turned
  into the failure that carries its message.
\<close>

theorem login_failure_leaves_execute:
  assumes "ensureLoggedIn rt w = (Inl e, w1)"
  shows "NavigateTool_execute rt np w = (Inl e, w1)
       \<and> ProjectTool_execute rt pp w = (Inl e, w1)
       \<and> UploadFileTool_execute rt up w = (Inl e, w1)
       \<and> RunVerificationTool_execute rt vp w = (Inl e, w1)
       \<and> login_error e
       \<and> (\<forall>schema raw. schema raw = Inr np \<longrightarrow>
             validateAndExecute schema (NavigateTool_execute rt) raw w
               = (Inr (fail_result (message_or ''Unknown error occurred'' e)), w1))
       \<and> (\<forall>schema raw. schema raw = Inr pp \<longrightarrow>
             validateAndExecute schema (ProjectTool_execute rt) raw w
               = (Inr (fail_result (message_or ''Unknown error occurred'' e)), w1))
       \<and> (\<forall>schema raw. schema raw = Inr up \<longrightarrow>
             validateAndExecute schema (UploadFileTool_execute rt) raw w
               = (Inr (fail_result (message_or ''Unknown error occurred'' e)), w1))
       \<and> (\<forall>schema raw. schema raw = Inr vp \<longrightarrow>
             validateAndExecute schema (RunVerificationTool_execute rt) raw w
               = (Inr (fail_result (message_or ''Unknown error occurred'' e)), w1))"
proof -
  have n: "NavigateTool_execute rt np w = (Inl e, w1)"
    unfolding NavigateTool_execute_def using assms by (simp add: io_bind_def)
  have p: "ProjectTool_execute rt pp w = (Inl e, w1)"
    unfolding ProjectTool_execute_def using assms by (simp add: io_bind_def)
  have u: "UploadFileTool_execute rt up w = (Inl e, w1)"
    unfolding UploadFileTool_execute_def using assms by (simp add: io_bind_def)
  have v: "RunVerificationTool_execute rt vp w = (Inl e, w1)"
    unfolding RunVerificationTool_execute_def using assms by (simp add: io_bind_def)
  have le: "login_error e" by (rule ensureLoggedIn_throws [OF assms])
  note c = catch_login_error [OF le]
  show ?thesis
    using n p u v le by (simp add: validate_throws c)
qed

theorem login_failure_leaves_execute_witness:
  "ensureLoggedIn blank_runtime ready_world
     = (Inl (Error ''Failed to login to OnlineEDA. Please check credentials.''),
        ready_world\<lparr>trace := [Query ''.dashboard, .project-list, .user-menu'']\<rparr>)
   \<and> validateAndExecute (accepting list_projects_params) (ProjectTool_execute blank_runtime) JNull ready_world
       = (Inr (fail_result ''Failed to login to OnlineEDA. Please check credentials.''),
          ready_world\<lparr>trace := [Query ''.dashboard, .project-list, .user-menu'']\<rparr>)"
  using login_failure_leaves_execute [OF blank_login_fails, of _ list_projects_params]
    blank_login_fails by (simp add: accepting_def)

text \<open>
  C3 as stated fails: with no credentials and a page that shows no sign of a session, the
  \<open>execute\<close> of the project tool throws the login error instead of returning a failure.
\<close>

theorem project_execute_raises:
  "ProjectTool_execute blank_runtime list_projects_params ready_world
     = (Inl (Error ''Failed to login to OnlineEDA. Please check credentials.''),
        ready_world\<lparr>trace := [Query ''.dashboard, .project-list, .user-menu'']\<rparr>)"
  unfolding ProjectTool_execute_def using blank_login_fails by (simp add: io_bind_def)


section \<open>Stage A of the natural-language tool\<close>


lemma loop_char:
  "findBest_loop words exs (bm, bs) = (rm, rs) \<Longrightarrow>
     bs \<le> rs
     \<and> (\<forall>e \<in> set exs. 1 / 2 < score words e \<longrightarrow> score words e \<le> rs)
     \<and> ((rm, rs) = (bm, bs)
        \<or> (\<exists>pre b post. exs = pre @ b # post \<and> rm = Some b \<and> rs = score words b
              \<and> 1 / 2 < rs \<and> bs < rs \<and> (\<forall>x \<in> set pre. score words x < rs)))"
proof (induction exs arbitrary: bm bs)
  case Nil
  then show ?case by simp
next
  case (Cons x exs)
  show ?case
  proof (cases "bs < score words x \<and> 1 / 2 < score words x")
    case True
    with Cons.prems have r: "findBest_loop words exs (Some x, score words x) = (rm, rs)" by simp
    from Cons.IH [OF r] have le: "score words x \<le> rs"
      and ub: "\<forall>e \<in> set exs. 1 / 2 < score words e \<longrightarrow> score words e \<le> rs"
      and d: "(rm, rs) = (Some x, score words x)
        \<or> (\<exists>pre b post. exs = pre @ b # post \<and> rm = Some b \<and> rs = score words b
              \<and> 1 / 2 < rs \<and> score words x < rs \<and> (\<forall>y \<in> set pre. score words y < rs))"
      by blast+
    from d have "\<exists>pre b post. x # exs = pre @ b # post \<and> rm = Some b \<and> rs = score words b
              \<and> 1 / 2 < rs \<and> bs < rs \<and> (\<forall>y \<in> set pre. score words y < rs)"
    proof
      assume "(rm, rs) = (Some x, score words x)"
      with True have "x # exs = [] @ x # exs \<and> rm = Some x \<and> rs = score words x
              \<and> 1 / 2 < rs \<and> bs < rs \<and> (\<forall>y \<in> set []. score words y < rs)" by simp
      then show ?thesis by blast
    next
      assume "\<exists>pre b post. exs = pre @ b # post \<and> rm = Some b \<and> rs = score words b
              \<and> 1 / 2 < rs \<and> score words x < rs \<and> (\<forall>y \<in> set pre. score words y < rs)"
      then obtain pre b post where e: "exs = pre @ b # post" "rm = Some b" "rs = score words b"
        "1 / 2 < rs" "score words x < rs" "\<forall>y \<in> set pre. score words y < rs" by blast
      with True have "x # exs = (x # pre) @ b # post \<and> rm = Some b \<and> rs = score words b
              \<and> 1 / 2 < rs \<and> bs < rs \<and> (\<forall>y \<in> set (x # pre). score words y < rs)" by simp
      then show ?thesis by blast
    qed
    with le ub True show ?thesis by auto
  next
    case False
    with Cons.prems have r: "findBest_loop words exs (bm, bs) = (rm, rs)" by auto
    from Cons.IH [OF r] have le: "bs \<le> rs"
      and ub: "\<forall>e \<in> set exs. 1 / 2 < score words e \<longrightarrow> score words e \<le> rs"
      and d: "(rm, rs) = (bm, bs)
        \<or> (\<exists>pre b post. exs = pre @ b # post \<and> rm = Some b \<and> rs = score words b
              \<and> 1 / 2 < rs \<and> bs < rs \<and> (\<forall>y \<in> set pre. score words y < rs))"
      by blast+
    from False le have x: "1 / 2 < score words x \<longrightarrow> score words x \<le> rs" by auto
    from d have "(rm, rs) = (bm, bs)
        \<or> (\<exists>pre b post. x # exs = pre @ b # post \<and> rm = Some b \<and> rs = score words b
              \<and> 1 / 2 < rs \<and> bs < rs \<and> (\<forall>y \<in> set pre. score words y < rs))"
    proof
      assume "(rm, rs) = (bm, bs)" then show ?thesis by simp
    next
      assume "\<exists>pre b post. exs = pre @ b # post \<and> rm = Some b \<and> rs = score words b
              \<and> 1 / 2 < rs \<and> bs < rs \<and> (\<forall>y \<in> set pre. score words y < rs)"
      then obtain pre b post where e: "exs = pre @ b # post" "rm = Some b" "rs = score words b"
        "1 / 2 < rs" "bs < rs" "\<forall>y \<in> set pre. score words y < rs" by blast
      from False e(4,5) have "score words x < rs" by auto
      with e have "x # exs = (x # pre) @ b # post \<and> rm = Some b \<and> rs = score words b
              \<and> 1 / 2 < rs \<and> bs < rs \<and> (\<forall>y \<in> set (x # pre). score words y < rs)" by simp
      then show ?thesis by blast
    qed
    with le ub x show ?thesis by auto
  qed
qed

lemma findBestExample_char:
  "(case findBestExample exs q of
      None \<Rightarrow> \<forall>e \<in> set exs. score (split_space q) e \<le> 1 / 2
    | Some b \<Rightarrow>
        \<exists>pre post. exs = pre @ b # post
          \<and> 1 / 2 < score (split_space q) b
          \<and> (\<forall>e \<in> set exs. score (split_space q) e \<le> score (split_space q) b)
          \<and> (\<forall>e \<in> set pre. score (split_space q) e < score (split_space q) b))"
proof -
  obtain rm rs where r: "findBest_loop (split_space q) exs (None, 0) = (rm, rs)"
    by (cases "findBest_loop (split_space q) exs (None, 0)")
  note c = loop_char [OF r]
  show ?thesis
  proof (cases rm)
    case None
    with c have "rs = 0" by auto
    with c None r show ?thesis by (auto simp: findBestExample_def)
  next
    case (Some b)
    with c obtain pre post where e: "exs = pre @ b # post" "rs = score (split_space q) b"
      "1 / 2 < rs" "\<forall>x \<in> set pre. score (split_space q) x < rs" by auto
    from c e(3) have "\<forall>x \<in> set exs. score (split_space q) x \<le> rs"
      by (metis less_eq_rat_def linorder_le_less_linear order.strict_trans1)
    with e Some r show ?thesis by (auto simp: findBestExample_def)
  qed
qed

lemma cpu_query_best:
  "findBestExample examples (toLowerCase cpu_query) = Some (examples ! 0)"
  by code_simp

lemma cpu_query_score: "score (split_space (toLowerCase cpu_query)) (examples ! 0) = 1"
  by code_simp

lemma first_example:
  "examples ! 0 = mk_example cpu_query ''Create formal verification project'' ''arcas_onlineeda_project''
       (JObj [(''action'', JStr ''create''), (''projectType'', JStr ''formal''),
              (''projectName'', JStr ''cpu_formal_verification'')])"
  by (simp add: examples_def cpu_query_def)

lemma cpu_query_resolved:
  "resolve_intent examples \<lparr>nl_query = cpu_query, nl_context = c\<rparr>
     = ok_result (JObj
         [ (''interpretation'', JStr ''Create formal verification project''),
           (''suggestedTool'', JStr ''arcas_onlineeda_project''),
           (''suggestedParams'',
              JObj [(''action'', JStr ''create''), (''projectType'', JStr ''formal''),
                    (''projectName'', JStr ''cpu_formal_verification'')]),
           (''matchedExample'', JStr cpu_query),
           (''confidence'', JStr ''high'') ])"
  by (simp add: resolve_intent_def cpu_query_best first_example mk_example_def)

text \<open>
  C4, as the code has it. The score of an example is the number of the words of the query
  that occur among the words of the example, over the larger of the two numbers of words; the
  words are the pieces between single spaces, and a word that is repeated counts each time.
  \<open>findBestExample\<close> returns nothing exactly when no example scores above one half;
  otherwise it returns an example of the corpus that scores above one half, that no example
  outscores, and before which every example scores strictly less (the first of the best). The
  query that is the first example word for word scores 1 against it and is resolved to that
  example's tool and parameters.
\<close>

theorem stage_A_selection:
  "score words e
     = of_nat (length (filter (\<lambda>word. word \<in> set (split_space (toLowerCase (query e)))) words))
       / of_nat (max (length words) (length (split_space (toLowerCase (query e)))))
   \<and> (case findBestExample exs q of
        None \<Rightarrow> \<forall>e \<in> set exs. score (split_space q) e \<le> 1 / 2
      | Some b \<Rightarrow>
          \<exists>pre post. exs = pre @ b # post
            \<and> 1 / 2 < score (split_space q) b
            \<and> (\<forall>e \<in> set exs. score (split_space q) e \<le> score (split_space q) b)
            \<and> (\<forall>e \<in> set pre. score (split_space q) e < score (split_space q) b))
   \<and> score (split_space (toLowerCase cpu_query)) (examples ! 0) = 1
   \<and> resolve_intent examples \<lparr>nl_query = cpu_query, nl_context = c\<rparr>
       = ok_result (JObj
           [ (''interpretation'', JStr ''Create formal verification project''),
             (''suggestedTool'', JStr ''arcas_onlineeda_project''),
             (''suggestedParams'',
                JObj [(''action'', JStr ''create''), (''projectType'', JStr ''formal''),
                      (''projectName'', JStr ''cpu_formal_verification'')]),
             (''matchedExample'', JStr cpu_query),
             (''confidence'', JStr ''high'') ])"
proof (intro conjI)
  show "score words e
     = of_nat (length (filter (\<lambda>word. word \<in> set (split_space (toLowerCase (query e)))) words))
       / of_nat (max (length words) (length (split_space (toLowerCase (query e)))))"
    by (simp add: score_def Let_def)
qed (rule findBestExample_char cpu_query_score cpu_query_resolved)+

theorem stage_A_selection_witness:
  "findBestExample examples (toLowerCase cpu_query) = Some (examples ! 0)
   \<and> 1 / 2 < score (split_space (toLowerCase cpu_query)) (examples ! 0)"
  using stage_A_selection [of "[]" "examples ! 0" examples "toLowerCase cpu_query" None]
    cpu_query_best
  by auto

text \<open>
  C4 as stated fails: the query \<open>go go go go go\<close> scores at most one half against every
  example when the score is taken over sets of tokens, as stated, so that nothing would be
  accepted; the code counts the repeated word five times, scores 1 against the example
  \<open>Go to the documentation\<close> and returns it.
\<close>

theorem stage_A_counts_repeated_words:
  "list_all (\<lambda>e. spec_token_set_score ''go go go go go'' e \<le> 1 / 2) examples
   \<and> spec_token_set_score ''go go go go go'' (examples ! 11) = 1 / 4
   \<and> score (split_space (toLowerCase ''go go go go go'')) (examples ! 11) = 1
   \<and> map_option query (findBestExample examples (toLowerCase ''go go go go go''))
       = Some ''Go to the documentation''"
  by code_simp


section \<open>Stage B of the natural-language tool\<close>


lemma detect_verilog:
  "str_includes q ''verilog'' \<Longrightarrow> detect fileTypes q dflt = ''verilog''"
  by (simp add: fileTypes_def some_included_def)

lemma upload_is_file_operation: "str_includes q ''upload'' \<Longrightarrow> isFileOperation q"
  by (simp add: isFileOperation_def some_included_def)

text \<open>
  C8, as the code has it. A query that, in lower case, contains \<open>upload\<close> and \<open>verilog\<close>, that
  stage A does not accept, and that matches neither the predicate of project creation nor the
  predicate of verification (the two that are tried before), matches the predicate of file
  operations and is answered with the suggestion of the upload tool with file type
  \<open>verilog\<close>.
\<close>


theorem upload_verilog_stage_B:
  assumes "str_includes (toLowerCase (nl_query p)) ''upload''"
    and "str_includes (toLowerCase (nl_query p)) ''verilog''"
    and "findBestExample exs (toLowerCase (nl_query p)) = None"
    and "\<not> isProjectCreation (toLowerCase (nl_query p))"
    and "\<not> isVerification (toLowerCase (nl_query p))"
  shows "isFileOperation (toLowerCase (nl_query p))
     \<and> resolve_intent exs p = ok_result (JObj
       [ (''interpretation'', JStr ''Upload design files''),
         (''suggestedTool'', JStr ''arcas_onlineeda_upload_file''),
         (''suggestedParams'', JObj
            [ (''projectId'', JStr ''Required: Use current project ID''),
              (''filePath'', JStr ''Required: Path to your design file''),
              (''fileType'', JStr ''verilog'') ]),
         (''examples'', JArr (map example_json
            (filter (\<lambda>e. tool e = ''arcas_onlineeda_upload_file'') exs))),
         (''supportedFormats'', JArr
            [ JStr ''Verilog (.v)'',
              JStr ''SystemVerilog (.sv)'',
              JStr ''VHDL (.vhd, .vhdl)'',
              JStr ''Constraint files (.sdc, .xdc)'' ]) ])"
  using assms upload_is_file_operation [OF assms(1)] detect_verilog [OF assms(2)]
  by (simp add: resolve_intent_def suggestFileUpload_def)

lemma upload_verilog_query:
  "str_includes (toLowerCase ''Upload Verilog'') ''upload''
   \<and> str_includes (toLowerCase ''Upload Verilog'') ''verilog''
   \<and> findBestExample examples (toLowerCase ''Upload Verilog'') = None
   \<and> \<not> isProjectCreation (toLowerCase ''Upload Verilog'')
   \<and> \<not> isVerification (toLowerCase ''Upload Verilog'')"
  by code_simp

theorem upload_verilog_stage_B_witness:
  "str_includes (toLowerCase ''Upload Verilog'') ''upload''
   \<and> isFileOperation (toLowerCase ''Upload Verilog'')
   \<and> success (resolve_intent examples \<lparr>nl_query = ''Upload Verilog'', nl_context = None\<rparr>)"
  using upload_verilog_stage_B [of "\<lparr>nl_query = ''Upload Verilog'', nl_context = None\<rparr>" examples]
    upload_verilog_query
  by (simp add: ok_result_def)

text \<open>
  C8 as stated fails: \<open>upload verilog then run\<close> contains both words and is not accepted by
  stage A, but it contains \<open>run\<close>, so the predicate of verification, which is tried first,
  takes it, and the suggestion is the one of the verification tool.
\<close>

theorem upload_verilog_classified_as_verification:
  "str_includes (toLowerCase ''upload verilog then run'') ''upload''
   \<and> str_includes (toLowerCase ''upload verilog then run'') ''verilog''
   \<and> findBestExample examples (toLowerCase ''upload verilog then run'') = None
   \<and> resolve_intent examples \<lparr>nl_query = ''upload verilog then run'', nl_context = None\<rparr>
       = suggestVerification examples ''upload verilog then run''
   \<and> resolve_intent examples \<lparr>nl_query = ''upload verilog then run'', nl_context = None\<rparr>
       \<noteq> suggestFileUpload examples ''upload verilog then run''"
  by code_simp


section \<open>Extraction of the verification results\<close>

lemma parseInt_0: "parseInt ''0'' = Num 0"
  by code_simp

lemma extract_stat_missing:
  "marker_text [m] doc = None \<or> marker_text [m] doc = Some [] \<Longrightarrow> extract_stat m doc = Num 0"
  by (auto simp: extract_stat_def or_default_def parseInt_0)

lemma extract_stat_present:
  "marker_text [m] doc = Some t \<Longrightarrow> t \<noteq> [] \<Longrightarrow> extract_stat m doc = parseInt t"
  by (simp add: extract_stat_def or_default_def)

lemma extract_violation_defaults:
  "(falsy (trimmed_text [''violation-type''] el) \<longrightarrow> violation_type (extract_violation el) = ''unknown'')
   \<and> (falsy (trimmed_text [''violation-message''] el) \<longrightarrow> violation_message (extract_violation el) = [])
   \<and> violation_location (extract_violation el) = trimmed_text [''violation-location''] el
   \<and> (falsy (trimmed_text [''violation-severity''] el) \<longrightarrow> violation_severity (extract_violation el) = ''error'')"
  by (auto simp: extract_violation_def or_default_def falsy_def split: option.splits)

lemma through_json_violation: "through_json (violation_json v) = violation_json v"
  by (simp add: violation_json_def optional_field_def split: option.splits)

lemma arrived_results:
  "returned_by_value (extract_callback doc)
     = JObj [ (''passed'', JBool (passed (extract_results doc))),
              (''violations'', JArr (map violation_json (violations (extract_results doc)))),
              (''statistics'', JObj
                 [ (''totalChecks'', through_json (JNum (extract_stat ''total-checks'' doc))),
                   (''passed'', through_json (JNum (extract_stat ''checks-passed'' doc))),
                   (''failed'', through_json (JNum (extract_stat ''checks-failed'' doc))),
                   (''warnings'', through_json (JNum (extract_stat ''warnings-count'' doc))) ]) ]"
  by (simp add: returned_by_value_def extract_callback_def results_json_def extract_results_def
      through_json_violation del: through_json.simps(1))

lemma evaluate_resolves:
  "rejects rt (trace w) Evaluate = None \<Longrightarrow>
     extractVerificationResults rt w
       = (Inr (returned_by_value (extract_callback (page_document rt (trace w)))),
          w\<lparr>trace := trace w @ [Evaluate]\<rparr>)"
  by (simp add: extractVerificationResults_def page_evaluate_def perform_def io_bind_def io_return_def)

text \<open>
  C5, as the code has it. The callback is a total function of the document. \<open>passed\<close> is
  false when no element carries a pass marker. The violations are the violation elements in
  document order; in each, a type, a message or a severity that is missing or blank takes its
  placeholder (\<open>unknown\<close>, the empty string, \<open>error\<close>), and the location is the trimmed text
  of its element, which may be empty, or is absent when that element is missing. A statistic
  is 0 when its marker is missing or has no text, and with no statistic marker all four are 0;
  when the marker has text, the statistic is \<open>parseInt\<close> of that text, which is \<open>NaN\<close>, not 0,
  for a text with no leading number. Whenever \<open>page.evaluate\<close> resolves,
  \<open>extractVerificationResults\<close> returns the object of these values as it arrives from the
  page: a statistic that is \<open>NaN\<close> in the page arrives as \<open>null\<close>, an integer as itself.
\<close>

theorem extraction_defaults:
  "(querySelector [''verification-passed'', ''status-passed''] doc = None
      \<longrightarrow> \<not> passed (extract_results doc))
   \<and> violations (extract_results doc)
       = map extract_violation (querySelectorAll [''violation-item'', ''error-item''] doc)
   \<and> (\<forall>el. (falsy (trimmed_text [''violation-type''] el)
                \<longrightarrow> violation_type (extract_violation el) = ''unknown'')
          \<and> (falsy (trimmed_text [''violation-message''] el)
                \<longrightarrow> violation_message (extract_violation el) = [])
          \<and> violation_location (extract_violation el) = trimmed_text [''violation-location''] el
          \<and> (falsy (trimmed_text [''violation-severity''] el)
                \<longrightarrow> violation_severity (extract_violation el) = ''error''))
   \<and> (\<forall>m. marker_text [m] doc = None \<or> marker_text [m] doc = Some [] \<longrightarrow> extract_stat m doc = Num 0)
   \<and> (\<forall>m t. marker_text [m] doc = Some t \<and> t \<noteq> [] \<longrightarrow> extract_stat m doc = parseInt t)
   \<and> (marker_text [''total-checks''] doc = None \<and> marker_text [''checks-passed''] doc = None
        \<and> marker_text [''checks-failed''] doc = None \<and> marker_text [''warnings-count''] doc = None
      \<longrightarrow> statistics (extract_results doc)
            = \<lparr>totalChecks = Num 0, checksPassed = Num 0, checksFailed = Num 0, warningsCount = Num 0\<rparr>)
   \<and> (\<forall>rt w. rejects rt (trace w) Evaluate = None \<and> page_document rt (trace w) = doc \<longrightarrow>
         fst (extractVerificationResults rt w)
           = Inr (JObj
               [ (''passed'', JBool (passed (extract_results doc))),
                 (''violations'', JArr (map violation_json (violations (extract_results doc)))),
                 (''statistics'', JObj
                    [ (''totalChecks'', through_json (JNum (extract_stat ''total-checks'' doc))),
                      (''passed'', through_json (JNum (extract_stat ''checks-passed'' doc))),
                      (''failed'', through_json (JNum (extract_stat ''checks-failed'' doc))),
                      (''warnings'', through_json (JNum (extract_stat ''warnings-count'' doc))) ]) ]))
   \<and> through_json (JNum NaN) = JNull
   \<and> (\<forall>i. through_json (JNum (Num i)) = JNum (Num i))"
proof (intro conjI)
  show "\<forall>el. (falsy (trimmed_text [''violation-type''] el)
                \<longrightarrow> violation_type (extract_violation el) = ''unknown'')
          \<and> (falsy (trimmed_text [''violation-message''] el)
                \<longrightarrow> violation_message (extract_violation el) = [])
          \<and> violation_location (extract_violation el) = trimmed_text [''violation-location''] el
          \<and> (falsy (trimmed_text [''violation-severity''] el)
                \<longrightarrow> violation_severity (extract_violation el) = ''error'')"
    using extract_violation_defaults by blast
next
  show "\<forall>rt w. rejects rt (trace w) Evaluate = None \<and> page_document rt (trace w) = doc \<longrightarrow>
         fst (extractVerificationResults rt w)
           = Inr (JObj
               [ (''passed'', JBool (passed (extract_results doc))),
                 (''violations'', JArr (map violation_json (violations (extract_results doc)))),
                 (''statistics'', JObj
                    [ (''totalChecks'', through_json (JNum (extract_stat ''total-checks'' doc))),
                      (''passed'', through_json (JNum (extract_stat ''checks-passed'' doc))),
                      (''failed'', through_json (JNum (extract_stat ''checks-failed'' doc))),
                      (''warnings'', through_json (JNum (extract_stat ''warnings-count'' doc))) ]) ])"
    by (auto simp add: evaluate_resolves arrived_results simp del: through_json.simps(1))
qed (auto simp: extract_results_def extract_stat_missing extract_stat_present)

lemma empty_doc_facts:
  "querySelector [''verification-passed'', ''status-passed''] (Element [] [] []) = None
   \<and> marker_text [''total-checks''] (Element [] [] []) = None
   \<and> marker_text [''checks-passed''] (Element [] [] []) = None
   \<and> marker_text [''checks-failed''] (Element [] [] []) = None
   \<and> marker_text [''warnings-count''] (Element [] [] []) = None"
  by (simp add: querySelector_def querySelectorAll_def marker_text_def)

theorem extraction_defaults_witness:
  "\<not> passed (extract_results (Element [] [] []))
   \<and> statistics (extract_results (Element [] [] []))
       = \<lparr>totalChecks = Num 0, checksPassed = Num 0, checksFailed = Num 0, warningsCount = Num 0\<rparr>"
  using extraction_defaults [of "Element [] [] []"] empty_doc_facts by simp

text \<open>
  C5 as stated fails: a marker of the total whose text is \<open>N/A\<close>, which is no number, gives the
  statistic \<open>NaN\<close> in the page and \<open>null\<close> in what \<open>extractVerificationResults\<close> returns, not 0.
\<close>

theorem non_numeric_statistic_is_not_zero:
  "marker_text [''total-checks''] na_document = Some ''N/A''
   \<and> totalChecks (statistics (extract_results na_document)) = NaN
   \<and> extractVerificationResults na_runtime ready_world
       = (Inr (JObj
            [ (''passed'', JBool False), (''violations'', JArr []),
              (''statistics'', JObj
                 [ (''totalChecks'', JNull), (''passed'', JNum (Num 0)),
                   (''failed'', JNum (Num 0)), (''warnings'', JNum (Num 0)) ]) ]),
          ready_world\<lparr>trace := [Evaluate]\<rparr>)"
  by code_simp


section \<open>An upload whose source is missing\<close>


lemma adds_no_goto_return: "adds_no_goto (io_return x)"
  by (simp add: adds_no_goto_def io_return_def)

lemma adds_no_goto_throw: "adds_no_goto (io_throw e)"
  by (simp add: adds_no_goto_def io_throw_def)

lemma adds_no_goto_bind:
  assumes "adds_no_goto m" and "\<And>x. adds_no_goto (f x)"
  shows "adds_no_goto (io_bind m f)"
  unfolding adds_no_goto_def
proof
  fix w
  obtain r w' where mw: "m w = (r, w')" by (cases "m w")
  with assms(1) have a: "filter is_goto (trace w') = filter is_goto (trace w)"
    unfolding adds_no_goto_def by (metis snd_conv)
  show "filter is_goto (trace (snd (io_bind m f w))) = filter is_goto (trace w)"
  proof (cases r)
    case (Inl e)
    with mw a show ?thesis by (simp add: io_bind_def)
  next
    case (Inr x)
    from assms(2) [of x] have "filter is_goto (trace (snd (f x w'))) = filter is_goto (trace w')"
      unfolding adds_no_goto_def by blast
    with mw a Inr show ?thesis by (simp add: io_bind_def)
  qed
qed

lemma adds_no_goto_try:
  assumes "adds_no_goto m" and "\<And>e. adds_no_goto (h e)"
  shows "adds_no_goto (try_catch m h)"
  unfolding adds_no_goto_def
proof
  fix w
  obtain r w' where mw: "m w = (r, w')" by (cases "m w")
  with assms(1) have a: "filter is_goto (trace w') = filter is_goto (trace w)"
    unfolding adds_no_goto_def by (metis snd_conv)
  show "filter is_goto (trace (snd (try_catch m h w))) = filter is_goto (trace w)"
  proof (cases r)
    case (Inl e)
    from assms(2) [of e] have "filter is_goto (trace (snd (h e w'))) = filter is_goto (trace w')"
      unfolding adds_no_goto_def by blast
    with mw a Inl show ?thesis by (simp add: try_catch_def)
  next
    case (Inr x)
    with mw a show ?thesis by (simp add: try_catch_def)
  qed
qed

lemma adds_no_goto_if:
  "adds_no_goto m \<Longrightarrow> adds_no_goto m' \<Longrightarrow> adds_no_goto (\<lambda>w. if c w then m w else m' w)"
  by (simp add: adds_no_goto_def)

lemma adds_no_goto_perform: "\<not> is_goto c \<Longrightarrow> adds_no_goto (perform rt c)"
  by (simp add: adds_no_goto_def perform_def)

lemma adds_no_goto_all2:
  assumes "adds_no_goto a" and "adds_no_goto b"
  shows "adds_no_goto (promise_all2 a b)"
  unfolding adds_no_goto_def
proof
  fix w
  obtain ra w1 where aw: "a w = (ra, w1)" by (cases "a w")
  obtain rb w2 where bw: "b w1 = (rb, w2)" by (cases "b w1")
  from assms aw bw have "filter is_goto (trace w2) = filter is_goto (trace w)"
    unfolding adds_no_goto_def by (metis snd_conv)
  with aw bw show "filter is_goto (trace (snd (promise_all2 a b w))) = filter is_goto (trace w)"
    by (cases ra) (simp_all add: promise_all2_def)
qed

lemma adds_no_goto_query: "adds_no_goto (page_query rt sel)"
  by (simp add: adds_no_goto_def page_query_def perform_def io_bind_def io_return_def
      split: option.splits)

lemma adds_no_goto_set: "adds_no_goto (set_isLoggedIn b)"
  by (simp add: adds_no_goto_def set_isLoggedIn_def)

lemma adds_no_goto_checkLoginStatus: "adds_no_goto (checkLoginStatus rt)"
  unfolding checkLoginStatus_def
  by (intro adds_no_goto_if adds_no_goto_try adds_no_goto_query adds_no_goto_return)
     (simp add: adds_no_goto_def)

lemma adds_no_goto_submit: "adds_no_goto (submit_login rt user pass)"
  unfolding submit_login_def
  by (intro adds_no_goto_bind adds_no_goto_all2 adds_no_goto_perform adds_no_goto_set
        adds_no_goto_checkLoginStatus adds_no_goto_return) simp_all

lemma adds_no_goto_login: "adds_no_goto (login rt username password)"
  unfolding login_def
  apply (intro adds_no_goto_if adds_no_goto_throw adds_no_goto_try adds_no_goto_bind
        adds_no_goto_checkLoginStatus adds_no_goto_return)
  apply (auto split: option.splits prod.splits
      intro!: adds_no_goto_bind adds_no_goto_set adds_no_goto_return adds_no_goto_submit)
  done

lemma adds_no_goto_ensureLoggedIn: "adds_no_goto (ensureLoggedIn rt)"
  unfolding ensureLoggedIn_def
  apply (rule adds_no_goto_if [of _ _ "\<lambda>w. \<not> isLoggedIn (session w)"])
   apply (rule adds_no_goto_bind [OF adds_no_goto_login])
   apply (simp add: adds_no_goto_return adds_no_goto_throw)
  apply (rule adds_no_goto_return)
  done

lemma upload_after_login:
  assumes "\<forall>h. rejects rt h (FsAccess (path_resolve rt (up_filePath p))) \<noteq> None"
    and "ensureLoggedIn rt w = (Inr b, w1)"
  shows "\<exists>r w'. UploadFileTool_execute rt p w = (Inr r, w') \<and> failed r
           \<and> filter is_goto (trace w') = filter is_goto (trace w1)
           \<and> (page (session w1) \<noteq> None \<longrightarrow>
                 w' = w1\<lparr>trace := trace w1 @ [FsAccess (path_resolve rt (up_filePath p))]\<rparr>)"
proof (cases "page (session w1) = None")
  case True
  with assms(2) show ?thesis
    by (simp add: UploadFileTool_execute_def io_bind_def io_return_def failed_def fail_result_def)
next
  case False
  from assms(1) obtain e where e: "rejects rt (trace w1) (FsAccess (path_resolve rt (up_filePath p))) = Some e"
    by (metis option.exhaust)
  from assms(2) False e show ?thesis
    by (simp add: UploadFileTool_execute_def io_bind_def try_catch_def perform_def io_return_def
        Let_def failed_def fail_result_def)
qed

text \<open>
  C7. When access to the resolved path is rejected whenever it is asked for, the upload
  returns a failure without \<open>data\<close>, and between its start and its end no \<open>page.goto\<close> is
  issued: the calls of \<open>page.goto\<close> in the trace are those that were there before. With a
  session that is logged in and a page at hand, the check of the resolved path is the one call
  that is made. (A login that was still to be done submits the login form first; it issues no
  \<open>page.goto\<close> either.)
\<close>


theorem upload_missing_source:
  assumes "\<forall>h. rejects rt h (FsAccess (path_resolve rt (up_filePath p))) \<noteq> None"
    and "schema raw = Inr p"
  shows "\<exists>r w'. validateAndExecute schema (UploadFileTool_execute rt) raw w = (Inr r, w')
           \<and> failed r
           \<and> filter is_goto (trace w') = filter is_goto (trace w)
           \<and> (isLoggedIn (session w) \<and> page (session w) \<noteq> None \<longrightarrow>
                 trace w' = trace w @ [FsAccess (path_resolve rt (up_filePath p))])"
proof -
  obtain x w1 where l: "ensureLoggedIn rt w = (x, w1)" by (cases "ensureLoggedIn rt w")
  from adds_no_goto_ensureLoggedIn [of rt] l
  have g: "filter is_goto (trace w1) = filter is_goto (trace w)"
    unfolding adds_no_goto_def by (metis snd_conv)
  have li: "isLoggedIn (session w) \<Longrightarrow> w1 = w"
    using l by (simp add: ensureLoggedIn_def io_return_def)
  show ?thesis
  proof (cases x)
    case (Inl e)
    with l have "UploadFileTool_execute rt p w = (Inl e, w1)"
      by (simp add: UploadFileTool_execute_def io_bind_def)
    with assms(2) have "validateAndExecute schema (UploadFileTool_execute rt) raw w
        = (Inr (catch_result e), w1)"
      by (simp add: validateAndExecute_def try_catch_def io_bind_def io_return_def schema_parse_def)
    with g li Inl l show ?thesis
      by (cases e) (auto simp: catch_result_def failed_def fail_result_def ensureLoggedIn_def io_return_def)
  next
    case (Inr b)
    with l have l': "ensureLoggedIn rt w = (Inr b, w1)" by simp
    from upload_after_login [OF assms(1) l'] obtain r w'
      where u: "UploadFileTool_execute rt p w = (Inr r, w')" "failed r"
        "filter is_goto (trace w') = filter is_goto (trace w1)"
        "page (session w1) \<noteq> None \<longrightarrow>
           w' = w1\<lparr>trace := trace w1 @ [FsAccess (path_resolve rt (up_filePath p))]\<rparr>"
      by blast
    from u(1) assms(2) have "validateAndExecute schema (UploadFileTool_execute rt) raw w = (Inr r, w')"
      by (simp add: validateAndExecute_def try_catch_def io_bind_def io_return_def schema_parse_def)
    with u g li show ?thesis by auto
  qed
qed

lemma no_files: "\<forall>h. rejects no_files_runtime h
    (FsAccess (path_resolve no_files_runtime (up_filePath upload_params))) \<noteq> None"
  by (simp add: no_files_runtime_def)

theorem upload_missing_source_witness:
  "\<exists>r w'. validateAndExecute (accepting upload_params) (UploadFileTool_execute no_files_runtime)
             JNull ready_world = (Inr r, w')
     \<and> failed r \<and> filter is_goto (trace w') = []"
proof -
  have a: "accepting upload_params JNull = Inr upload_params" by (simp add: accepting_def)
  from upload_missing_source [where rt = no_files_runtime and p = upload_params
      and schema = "accepting upload_params" and raw = JNull and w = ready_world, OF no_files a]
  show ?thesis
    by (auto simp: ready_world_def)
qed


section \<open>The waits of a verification run\<close>



lemma failed_fail [simp]: "failed (fail_result m)"
  by (simp add: failed_def fail_result_def)









section \<open>The credentials of a login\<close>






lemma js_or_absent: "falsy a \<Longrightarrow> js_or a x = js_or x x"
  by (auto simp: js_or_def falsy_def split: option.splits)

lemma checkLoginStatus_env [simp]:
  "checkLoginStatus (rt\<lparr>env_username := x\<rparr>) = checkLoginStatus rt"
  "checkLoginStatus (rt\<lparr>env_password := x\<rparr>) = checkLoginStatus rt"
  by (simp_all add: checkLoginStatus_def page_query_def perform_def fun_eq_iff)

lemma submit_login_env [simp]:
  "submit_login (rt\<lparr>env_username := x\<rparr>) = submit_login rt"
  "submit_login (rt\<lparr>env_password := x\<rparr>) = submit_login rt"
  by (simp_all add: submit_login_def perform_def fun_eq_iff)



lemma js_or_idem: "js_or (js_or a b) b = js_or a b"
  by (simp add: js_or_def split: option.splits)








section \<open>Two callers at once\<close>

lemmas seq_defs = ensureLoggedIn_def login_def checkLoginStatus_def submit_login_def
      io_bind_def io_return_def io_throw_def try_catch_def promise_all2_def page_query_def
      perform_def set_isLoggedIn_def js_or_def

lemmas par_defs = run_schedule_def one_caller_def sys_step_def suspend_def login_failed_def

text \<open>
  The steps are the statements of \<open>ensureLoggedIn\<close>: a caller that runs alone, its seven steps
  one after the other, ends with what \<open>ensureLoggedIn\<close> returns or throws, in the same state,
  on every page and from every state.
\<close>

lemma single_caller_agrees:
  "run_schedule rt [0, 0, 0, 0, 0, 0, 0] (one_caller w)
     = (case ensureLoggedIn rt w of
          (r, w') \<Rightarrow> \<lparr>shared = w', callers = [Returned r]\<rparr>)"
proof (cases "isLoggedIn (session w)")
  case True
  then show ?thesis by (simp add: seq_defs par_defs)
next
  case nl: False
  show ?thesis
  proof (cases "page (session w) = None")
    case True
    with nl show ?thesis by (simp add: seq_defs par_defs)
  next
    case pg: False
    let ?q = "Query ''.dashboard, .project-list, .user-menu''"
    show ?thesis
    proof (cases "rejects rt (trace w) ?q = None \<and> element_found rt (trace w) ''.dashboard, .project-list, .user-menu''")
      case True
      with nl pg show ?thesis by (simp add: seq_defs par_defs)
    next
      case nf: False
      show ?thesis
      proof (cases "\<exists>user pass. env_username rt = Some user \<and> env_password rt = Some pass \<and> user \<noteq> [] \<and> pass \<noteq> []")
        case False
        with nl pg nf show ?thesis
          by (cases "rejects rt (trace w) ?q"; cases "env_username rt"; cases "env_password rt")
             (auto simp add: seq_defs par_defs)
      next
        case True
        then obtain user pass where c: "env_username rt = Some user" "env_password rt = Some pass"
          "user \<noteq> []" "pass \<noteq> []" by blast
        let ?f = "WaitForSelector ''input[type=\"text\"], input[type=\"email\"]'' (Some 5000)"
        let ?tu = "TypeText ''input[type=\"text\"], input[type=\"email\"]'' user"
        let ?tp = "TypeText ''input[type=\"password\"]'' pass"
        let ?c = "Click ''button[type=\"submit\"]''"
        let ?n = "WaitForNavigation"
        note defs = seq_defs par_defs
        show ?thesis
        proof (cases "rejects rt (trace w @ [?q]) ?f")
          case (Some e)
          with nl pg nf c show ?thesis
            by (cases "rejects rt (trace w) ?q") (simp_all add: defs)
        next
          case a1: None
          show ?thesis
          proof (cases "rejects rt (trace w @ [?q, ?f]) ?tu")
            case (Some e)
            with nl pg nf c a1 show ?thesis
              by (cases "rejects rt (trace w) ?q") (simp_all add: defs)
          next
            case a2: None
            show ?thesis
            proof (cases "rejects rt (trace w @ [?q, ?f, ?tu]) ?tp")
              case (Some e)
              with nl pg nf c a1 a2 show ?thesis
                by (cases "rejects rt (trace w) ?q") (simp_all add: defs)
            next
              case a3: None
              show ?thesis
              proof (cases "rejects rt (trace w @ [?q, ?f, ?tu, ?tp]) ?c")
                case (Some e)
                with nl pg nf c a1 a2 a3 show ?thesis
                  by (cases "rejects rt (trace w) ?q") (simp_all add: defs)
              next
                case a4: None
                show ?thesis
                proof (cases "rejects rt (trace w @ [?q, ?f, ?tu, ?tp, ?c]) ?n")
                  case (Some e)
                  with nl pg nf c a1 a2 a3 a4 show ?thesis
                    by (cases "rejects rt (trace w) ?q") (simp_all add: defs)
                next
                  case a5: None
                  show ?thesis
                  proof (cases "rejects rt (trace w @ [?q, ?f, ?tu, ?tp, ?c, ?n]) ?q")
                    case (Some e)
                    with nl pg nf c a1 a2 a3 a4 a5 show ?thesis
                      by (cases "rejects rt (trace w) ?q") (simp_all add: defs)
                  next
                    case a6: None
                    show ?thesis
                    proof (cases "element_found rt (trace w @ [?q, ?f, ?tu, ?tp, ?c, ?n])
                                    ''.dashboard, .project-list, .user-menu''")
                      case True
                      with nl pg nf c a1 a2 a3 a4 a5 a6 show ?thesis
                        by (cases "rejects rt (trace w) ?q") (simp_all add: defs)
                    next
                      case False
                      with nl pg nf c a1 a2 a3 a4 a5 a6 show ?thesis
                        by (cases "rejects rt (trace w) ?q") (simp_all add: defs)
                    qed
                  qed
                qed
              qed
            qed
          qed
        qed
      qed
    qed
  qed
qed

lemma idle_step_starts_login:
  assumes "i < length (callers s)" and "callers s ! i = Idle"
    and "\<not> isLoggedIn (session (shared s))" and "page (session (shared s)) \<noteq> None"
  shows "\<exists>r. sys_step rt s i
           = \<lparr>shared = (shared s)\<lparr>trace := trace (shared s) @ [status_check]\<rparr>,
              callers = (callers s)[i := AwaitStatus r]\<rparr>"
  using assms
  by (cases "rejects rt (trace (shared s)) status_check")
     (auto simp: sys_step_def suspend_def page_query_def perform_def io_bind_def io_return_def
        status_check_def)

lemma idle_step_logged_in:
  assumes "i < length (callers s)" and "callers s ! i = Idle"
    and "isLoggedIn (session (shared s))"
  shows "sys_step rt s i = s\<lparr>callers := (callers s)[i := Returned (Inr True)]\<rparr>"
  using assms by (simp add: sys_step_def)

lemma idle_step_no_page:
  assumes "i < length (callers s)" and "callers s ! i = Idle"
    and "\<not> isLoggedIn (session (shared s))" and "page (session (shared s)) = None"
  shows "sys_step rt s i
           = s\<lparr>callers := (callers s)[i := Returned (Inl (Error ''Browser not initialized''))]\<rparr>"
  using assms by (simp add: sys_step_def)

lemma flag_set_only_by_status:
  assumes "isLoggedIn (session (shared (sys_step rt s j)))" and "\<not> isLoggedIn (session (shared s))"
  shows "j < length (callers s)
       \<and> (callers s ! j = AwaitStatus (Inr True) \<or> callers s ! j = AwaitStatusAgain (Inr True))"
proof (cases "j < length (callers s)")
  case False
  with assms show ?thesis by (simp add: sys_step_def)
next
  case True
  with assms show ?thesis
    by (cases "callers s ! j")
       (auto simp: sys_step_def suspend_def login_failed_def page_query_def perform_def
          promise_all2_def io_bind_def io_return_def
          split: prod.splits option.splits sum.splits if_splits)
qed

lemma two_idle_callers:
  fixes w :: world
  assumes "\<not> isLoggedIn (session w)" and "page (session w) \<noteq> None"
  shows "\<exists>r0 r1. run_schedule rt [0, 1] (two_callers w)
           = \<lparr>shared = w\<lparr>trace := trace w @ [status_check, status_check]\<rparr>,
              callers = [AwaitStatus r0, AwaitStatus r1]\<rparr>"
proof -
  let ?w1 = "w\<lparr>trace := trace w @ [status_check]\<rparr>"
  let ?s0 = "two_callers w"
  from assms obtain r0 where
    s1: "sys_step rt ?s0 0 = \<lparr>shared = ?w1, callers = [AwaitStatus r0, Idle]\<rparr>"
    using idle_step_starts_login [of 0 ?s0 rt] by (auto simp: two_callers_def)
  let ?s1 = "\<lparr>shared = ?w1, callers = [AwaitStatus r0, Idle]\<rparr>"
  from assms obtain r1 where
    s2: "sys_step rt ?s1 1
           = \<lparr>shared = ?w1\<lparr>trace := trace ?w1 @ [status_check]\<rparr>,
              callers = [AwaitStatus r0, AwaitStatus r1]\<rparr>"
    using idle_step_starts_login [of 1 ?s1 rt] by auto
  from s1 s2 show ?thesis by (simp add: run_schedule_def)
qed

lemma both_submit:
  fixes w :: world
  assumes "\<not> isLoggedIn (session w)" and "page (session w) \<noteq> None"
    and "\<forall>h c. rejects rt h c = None" and "\<forall>h sel. \<not> element_found rt h sel"
    and "env_username rt = Some user" and "env_password rt = Some pass"
    and "user \<noteq> []" and "pass \<noteq> []"
  shows "run_schedule rt [0, 1, 0, 1, 0, 1, 0, 1, 0, 1] (two_callers w)
           = \<lparr>shared = w\<lparr>trace := trace w @
                 [ status_check, status_check, form_wait, form_wait,
                   type_user user, type_user user, type_pass pass, type_pass pass,
                   submit_click, WaitForNavigation, submit_click, WaitForNavigation ]\<rparr>,
              callers = [AwaitSubmit (Inr ()), AwaitSubmit (Inr ())]\<rparr>"
  using assms
  by (simp add: run_schedule_def two_callers_def sys_step_def suspend_def login_failed_def
      page_query_def perform_def promise_all2_def io_bind_def io_return_def js_or_def
      status_check_def form_wait_def type_user_def type_pass_def submit_click_def)

text \<open>
  C10, as the code has it. Nothing in \<open>ensureLoggedIn\<close> or \<open>login\<close> records an attempt in
  flight, so login is not single-flight. Callers run, each without interruption between two of
  its \<open>await\<close>s, in any order. A caller that calls \<open>ensureLoggedIn\<close> while the flag
  \<open>isLoggedIn\<close> is false and there is a page enters \<open>login\<close> and issues its own status check,
  whatever the other callers are doing, and leaves the session as it is (with no page, it
  throws \<open>Browser not initialized\<close> and issues nothing); the flag turns true
  only when the status check of some attempt finds a session; a caller that calls when the
  flag is true returns true at once and issues nothing. So two callers that both call before
  either has got its first answer are inside \<open>login\<close> together, with two status checks issued,
  on every page; and where no call is rejected, no session marker is found and the environment
  holds credentials, both type the credentials and both click the submit button.
\<close>

theorem overlapping_callers_each_login:
  "(\<forall>i. i < length (callers s) \<and> callers s ! i = Idle
         \<and> \<not> isLoggedIn (session (shared s)) \<and> page (session (shared s)) \<noteq> None \<longrightarrow>
        (\<exists>r. sys_step rt s i
           = \<lparr>shared = (shared s)\<lparr>trace := trace (shared s) @ [status_check]\<rparr>,
              callers = (callers s)[i := AwaitStatus r]\<rparr>))
   \<and> (\<forall>i. i < length (callers s) \<and> callers s ! i = Idle \<and> isLoggedIn (session (shared s)) \<longrightarrow>
        sys_step rt s i = s\<lparr>callers := (callers s)[i := Returned (Inr True)]\<rparr>)
   \<and> (\<forall>i. i < length (callers s) \<and> callers s ! i = Idle
         \<and> \<not> isLoggedIn (session (shared s)) \<and> page (session (shared s)) = None \<longrightarrow>
        sys_step rt s i
          = s\<lparr>callers := (callers s)[i := Returned (Inl (Error ''Browser not initialized''))]\<rparr>)
   \<and> (\<forall>j. isLoggedIn (session (shared (sys_step rt s j))) \<and> \<not> isLoggedIn (session (shared s)) \<longrightarrow>
        j < length (callers s)
        \<and> (callers s ! j = AwaitStatus (Inr True) \<or> callers s ! j = AwaitStatusAgain (Inr True)))
   \<and> (\<forall>w :: world. \<not> isLoggedIn (session w) \<and> page (session w) \<noteq> None \<longrightarrow>
        (\<exists>r0 r1. run_schedule rt [0, 1] (two_callers w)
           = \<lparr>shared = w\<lparr>trace := trace w @ [status_check, status_check]\<rparr>,
              callers = [AwaitStatus r0, AwaitStatus r1]\<rparr>))
   \<and> (\<forall>(w :: world) user pass.
        \<not> isLoggedIn (session w) \<and> page (session w) \<noteq> None
        \<and> (\<forall>h c. rejects rt h c = None) \<and> (\<forall>h sel. \<not> element_found rt h sel)
        \<and> env_username rt = Some user \<and> env_password rt = Some pass \<and> user \<noteq> [] \<and> pass \<noteq> [] \<longrightarrow>
        run_schedule rt [0, 1, 0, 1, 0, 1, 0, 1, 0, 1] (two_callers w)
           = \<lparr>shared = w\<lparr>trace := trace w @
                 [ status_check, status_check, form_wait, form_wait,
                   type_user user, type_user user, type_pass pass, type_pass pass,
                   submit_click, WaitForNavigation, submit_click, WaitForNavigation ]\<rparr>,
              callers = [AwaitSubmit (Inr ()), AwaitSubmit (Inr ())]\<rparr>)"
proof (intro conjI allI impI)
  fix i
  assume "i < length (callers s) \<and> callers s ! i = Idle
         \<and> \<not> isLoggedIn (session (shared s)) \<and> page (session (shared s)) \<noteq> None"
  then show "\<exists>r. sys_step rt s i
           = \<lparr>shared = (shared s)\<lparr>trace := trace (shared s) @ [status_check]\<rparr>,
              callers = (callers s)[i := AwaitStatus r]\<rparr>"
    using idle_step_starts_login [of i s rt] by blast
next
  fix i
  assume "i < length (callers s) \<and> callers s ! i = Idle \<and> isLoggedIn (session (shared s))"
  then show "sys_step rt s i = s\<lparr>callers := (callers s)[i := Returned (Inr True)]\<rparr>"
    using idle_step_logged_in [of i s rt] by blast
next
  fix i
  assume "i < length (callers s) \<and> callers s ! i = Idle
         \<and> \<not> isLoggedIn (session (shared s)) \<and> page (session (shared s)) = None"
  then show "sys_step rt s i
          = s\<lparr>callers := (callers s)[i := Returned (Inl (Error ''Browser not initialized''))]\<rparr>"
    using idle_step_no_page [of i s rt] by blast
next
  fix j
  assume a: "isLoggedIn (session (shared (sys_step rt s j))) \<and> \<not> isLoggedIn (session (shared s))"
  from a flag_set_only_by_status [of rt s j] show "j < length (callers s)" by blast
  from a flag_set_only_by_status [of rt s j]
  show "callers s ! j = AwaitStatus (Inr True) \<or> callers s ! j = AwaitStatusAgain (Inr True)"
    by blast
next
  fix w :: world
  assume "\<not> isLoggedIn (session w) \<and> page (session w) \<noteq> None"
  then show "\<exists>r0 r1. run_schedule rt [0, 1] (two_callers w)
           = \<lparr>shared = w\<lparr>trace := trace w @ [status_check, status_check]\<rparr>,
              callers = [AwaitStatus r0, AwaitStatus r1]\<rparr>"
    using two_idle_callers [of w rt] by blast
next
  fix w :: world and user pass
  assume "\<not> isLoggedIn (session w) \<and> page (session w) \<noteq> None
        \<and> (\<forall>h c. rejects rt h c = None) \<and> (\<forall>h sel. \<not> element_found rt h sel)
        \<and> env_username rt = Some user \<and> env_password rt = Some pass \<and> user \<noteq> [] \<and> pass \<noteq> []"
  then show "run_schedule rt [0, 1, 0, 1, 0, 1, 0, 1, 0, 1] (two_callers w)
           = \<lparr>shared = w\<lparr>trace := trace w @
                 [ status_check, status_check, form_wait, form_wait,
                   type_user user, type_user user, type_pass pass, type_pass pass,
                   submit_click, WaitForNavigation, submit_click, WaitForNavigation ]\<rparr>,
              callers = [AwaitSubmit (Inr ()), AwaitSubmit (Inr ())]\<rparr>"
    using both_submit [of w rt user pass] by blast
qed

lemma ready_world_open:
  "\<not> isLoggedIn (session ready_world) \<and> page (session ready_world) \<noteq> None"
  by (simp add: ready_world_def initial_session_def)

theorem overlapping_callers_each_login_witness:
  "\<not> isLoggedIn (session ready_world) \<and> page (session ready_world) \<noteq> None
   \<and> (\<exists>r0 r1. run_schedule login_page_runtime [0, 1] (two_callers ready_world)
         = \<lparr>shared = ready_world\<lparr>trace := trace ready_world @ [status_check, status_check]\<rparr>,
            callers = [AwaitStatus r0, AwaitStatus r1]\<rparr>)"
  using overlapping_callers_each_login [of "two_callers ready_world" login_page_runtime]
    ready_world_open
  by blast

text \<open>
  C10 as stated fails: on a login page, two callers that call one after the other before the
  first answer arrives are both inside \<open>login\<close>, two attempts in flight with a status check
  each; taking turns, both click the submit button; and when the first runs on ahead, its
  attempt logs in and it gets true, while the second finds the login form gone and gets the
  login error. Two attempts, and two outcomes.
\<close>

theorem two_callers_two_logins:
  "attempts_in_flight (run_schedule login_page_runtime [0, 1] (two_callers ready_world)) = 2
   \<and> trace (shared (run_schedule login_page_runtime [0, 1] (two_callers ready_world)))
       = [status_check, status_check]
   \<and> length (filter (\<lambda>c. c = submit_click)
        (trace (shared (run_schedule login_page_runtime [0, 1, 0, 1, 0, 1, 0, 1, 0, 1]
           (two_callers ready_world))))) = 2
   \<and> callers (run_schedule login_page_runtime [0, 1, 0, 0, 0, 0, 0, 0, 1, 1] (two_callers ready_world))
       = [Returned (Inr True),
          Returned (Inl (Error ''Failed to login to OnlineEDA. Please check credentials.''))]"
  by code_simp

end
